theory Spec2Isabelle
  imports Main
begin

section \<open>Strings and arrays of the host language\<close>

text \<open>
  Strings are lists of characters. \<open>join sep xs\<close> is \<^verbatim>\<open>xs.join(sep)\<close>: the elements
  separated by \<open>sep\<close>, nothing before the first or after the last.
\<close>

fun join :: "string \<Rightarrow> string list \<Rightarrow> string" where
  "join sep [] = []"
| "join sep [x] = x"
| "join sep (x # y # ys) = x @ sep @ join sep (y # ys)"

text \<open>
  \<^verbatim>\<open>xs.filter(cb)\<close> where the callback \<open>cb\<close> reads and writes a variable of the enclosing
  function: the variable is threaded through the calls, left to right. A callback takes the
  variable's value and an element, and returns the keep decision with the variable's new
  value.
\<close>

fun filter_st :: "('s \<Rightarrow> 'a \<Rightarrow> bool \<times> 's) \<Rightarrow> 's \<Rightarrow> 'a list \<Rightarrow> 'a list" where
  "filter_st cb s [] = []"
| "filter_st cb s (x # xs) =
     (case cb s x of (keep, s') \<Rightarrow>
        if keep then x # filter_st cb s' xs else filter_st cb s' xs)"

text \<open>
  The same pass, recording for every element of the input the value of the variable when
  the callback was entered and the decision the callback took.
\<close>

fun filter_trace :: "('s \<Rightarrow> 'a \<Rightarrow> bool \<times> 's) \<Rightarrow> 's \<Rightarrow> 'a list \<Rightarrow> ('s \<times> bool) list" where
  "filter_trace cb s [] = []"
| "filter_trace cb s (x # xs) =
     (case cb s x of (keep, s') \<Rightarrow> (s, keep) # filter_trace cb s' xs)"

section \<open>Exceptions\<close>

text \<open>
  What the program and the libraries under it throw: a file-system error for a path, a
  failure to read or deserialise the database, a type error (a method called on
  \<^verbatim>\<open>undefined\<close>, a path argument that is not a string), and the error of the URI
  constructor.
\<close>

datatype error = ENOENT string | EEXIST string | ParseError | TypeError | UriError

section \<open>Compilation database entries\<close>

record Uri =
  scheme :: string
  path :: string

record CompileCommand =
  cc_file :: string
  raw_command :: string
  raw_arguments :: "string list"
  directory :: string
  cc_uri :: Uri
  cc_command :: string
  cc_args :: "string list"

subsection \<open>Tokenising the raw command string\<close>

text \<open>
  \<^verbatim>\<open>this._command.match(/[^"\s]*("(\\"|[^"])+")?/g)\<close>. Characters are 8-bit code units, so
  \<^verbatim>\<open>\s\<close> is tab, line feed, vertical tab, form feed, carriage return, space and the
  no-break space.
\<close>

definition is_space :: "char \<Rightarrow> bool" where
  "is_space c = (c \<in> set [CHR 0x09, CHR 0x0A, CHR 0x0B, CHR 0x0C, CHR 0x0D, CHR 0x20, CHR 0xA0])"

text \<open>
  The quoted group after its opening quote: \<^verbatim>\<open>(\\"|[^"])+"\<close>. The first argument counts the
  characters consumed so far. The loop prefers the two-character alternative \<^verbatim>\<open>\"\<close>, and
  runs to the first quote it cannot consume, which closes the group when at least one
  iteration was made. When the input ends first, the matcher backtracks to the most recent
  \<^verbatim>\<open>\"\<close>, reads its backslash as an ordinary character and its quote as the closing one; the
  second argument holds the length of that match. \<open>None\<close>: the group does not match.
\<close>

fun quoted_scan :: "nat \<Rightarrow> nat option \<Rightarrow> string \<Rightarrow> nat option" where
  "quoted_scan n fb [] = fb"
| "quoted_scan n fb [c] =
     (if c = CHR 0x22 then (if 0 < n then Some (Suc n) else fb)
      else quoted_scan (Suc n) fb [])"
| "quoted_scan n fb (c # d # cs) =
     (if c = CHR 0x5C \<and> d = CHR 0x22 then quoted_scan (n + 2) (Some (n + 2)) cs
      else if c = CHR 0x22 then (if 0 < n then Some (Suc n) else fb)
      else quoted_scan (Suc n) fb (d # cs))"

text \<open>
  Length of the match found when the pattern is applied at the start of \<open>s\<close>: the longest
  run of characters that are neither quotes nor spaces, then the quoted group if it matches.
  The pattern matches the empty string, so a match is always found there.
\<close>

definition match_len :: "string \<Rightarrow> nat" where
  "match_len s =
     (let run = takeWhile (\<lambda>c. c \<noteq> CHR 0x22 \<and> \<not> is_space c) s;
          rest = dropWhile (\<lambda>c. c \<noteq> CHR 0x22 \<and> \<not> is_space c) s
      in case rest of
           [] \<Rightarrow> length run
         | q # after \<Rightarrow>
             if q = CHR 0x22 then
               (case quoted_scan 0 None after of
                  Some k \<Rightarrow> length run + 1 + k
                | None \<Rightarrow> length run)
             else length run)"

text \<open>
  All matches of the global pattern, in order, the empty ones included: after an empty match
  the search resumes one character further, and the end of the string gives a last empty
  match.
\<close>

function match_all :: "string \<Rightarrow> string list" where
  "match_all s =
     (if s = [] then [[]]
      else if match_len s = 0 then [] # match_all (tl s)
      else take (match_len s) s # match_all (drop (match_len s) s))"
  by pat_completeness auto
termination
  by (relation "measure length") auto

declare match_all.simps [simp del]

subsection \<open>Paths and URIs\<close>

text \<open>
  POSIX paths as the \<^verbatim>\<open>path\<close> module of the runtime treats them: the segments of a path are
  its non-empty pieces between slashes; resolving drops \<^verbatim>\<open>.\<close>, lets \<^verbatim>\<open>..\<close> remove the
  segment before it (nothing at the root), and yields an absolute path without a trailing
  slash. Arguments are taken from the right until one is absolute, empty ones are skipped;
  \<open>cwd\<close> is the absolute working directory of the process.
\<close>

fun split_slash :: "string \<Rightarrow> string \<Rightarrow> string list" where
  "split_slash acc [] = [rev acc]"
| "split_slash acc (c # cs) =
     (if c = CHR ''/'' then rev acc # split_slash [] cs else split_slash (c # acc) cs)"

definition segments :: "string \<Rightarrow> string list" where
  "segments p = filter (\<lambda>seg. seg \<noteq> []) (split_slash [] p)"

fun normalize_segments :: "string list \<Rightarrow> string list \<Rightarrow> string list" where
  "normalize_segments stack [] = rev stack"
| "normalize_segments stack (seg # segs) =
     (if seg = ''.'' then normalize_segments stack segs
      else if seg = ''..'' then normalize_segments (tl stack) segs
      else normalize_segments (seg # stack) segs)"

definition is_absolute :: "string \<Rightarrow> bool" where
  "is_absolute p = (case p of [] \<Rightarrow> False | c # _ \<Rightarrow> c = CHR ''/'')"

definition resolved_segments :: "string \<Rightarrow> string list \<Rightarrow> string list" where
  "resolved_segments cwd ps =
     normalize_segments []
       (segments (foldr (\<lambda>p suffix. if is_absolute suffix \<or> p = [] then suffix
                                      else p @ ''/'' @ suffix)
                        (cwd # ps) []))"

definition Path_resolve :: "string \<Rightarrow> string list \<Rightarrow> string" where
  "Path_resolve cwd ps = CHR ''/'' # join ''/'' (resolved_segments cwd ps)"

fun drop_common :: "string list \<Rightarrow> string list \<Rightarrow> string list \<times> string list" where
  "drop_common (x # xs) (y # ys) =
     (if x = y then drop_common xs ys else (x # xs, y # ys))"
| "drop_common xs ys = (xs, ys)"

definition Path_relative :: "string \<Rightarrow> string \<Rightarrow> string \<Rightarrow> string" where
  "Path_relative cwd from to =
     (case drop_common (resolved_segments cwd [from]) (resolved_segments cwd [to]) of
        (up, down) \<Rightarrow> join ''/'' (map (\<lambda>_. ''..'') up @ down))"

text \<open>
  The directory a path lies in: its resolved form without the last segment.
\<close>

definition parent_dir :: "string \<Rightarrow> string \<Rightarrow> string" where
  "parent_dir cwd p = CHR ''/'' # join ''/'' (butlast (resolved_segments cwd [p]))"

text \<open>
  A URI is its scheme and its path; authority, query and fragment stay empty here. The
  constructor replaces an empty scheme by \<^verbatim>\<open>file\<close>, gives the path of an \<^verbatim>\<open>https\<close>,
  \<^verbatim>\<open>http\<close> or \<^verbatim>\<open>file\<close> URI a leading slash when it has none, and throws when the scheme
  does not match \<^verbatim>\<open>/^\w[\w\d+.-]*$/\<close> or when the path begins with two slashes.
\<close>

definition is_word_char :: "char \<Rightarrow> bool" where
  "is_word_char c =
     (c \<in> set ''abcdefghijklmnopqrstuvwxyzABCDEFGHIJKLMNOPQRSTUVWXYZ0123456789_'')"

definition valid_scheme :: "string \<Rightarrow> bool" where
  "valid_scheme sch =
     (case sch of
        [] \<Rightarrow> False
      | c # cs \<Rightarrow> is_word_char c \<and> list_all (\<lambda>d. is_word_char d \<or> d \<in> set ''+.-'') cs)"

definition reference_resolution :: "string \<Rightarrow> string \<Rightarrow> string" where
  "reference_resolution sch p =
     (if sch = ''https'' \<or> sch = ''http'' \<or> sch = ''file'' then
        (case p of [] \<Rightarrow> ''/'' | c # _ \<Rightarrow> if c = CHR ''/'' then p else CHR ''/'' # p)
      else p)"

definition new_Uri :: "string \<Rightarrow> string \<Rightarrow> error + Uri" where
  "new_Uri sch p =
     (let sch' = (if sch = [] then ''file'' else sch);
          p' = reference_resolution sch' p
      in if \<not> valid_scheme sch' then Inl UriError
         else if take 2 p' = ''//'' then Inl UriError
         else Inr \<lparr>scheme = sch', path = p'\<rparr>)"

text \<open>
  \<^verbatim>\<open>Uri.file\<close> of a path that does not begin with two slashes, as \<^verbatim>\<open>Path.resolve\<close> returns
  it. \<^verbatim>\<open>uri.with({scheme, path})\<close> returns the URI itself when nothing changes and
  constructs a new one otherwise.
\<close>

definition Uri_file :: "string \<Rightarrow> Uri" where
  "Uri_file p = \<lparr>scheme = ''file'', path = reference_resolution ''file'' p\<rparr>"

definition Uri_with :: "Uri \<Rightarrow> string \<Rightarrow> string \<Rightarrow> error + Uri" where
  "Uri_with u sch p = (if sch = scheme u \<and> p = path u then Inr u else new_Uri sch p)"

text \<open>
  \<^verbatim>\<open>uri.fsPath\<close> without authority, on a POSIX host: the path, except that a path beginning
  with a slash, a letter and a colon loses the slash and has the letter in lower case.
\<close>

definition is_letter :: "char \<Rightarrow> bool" where
  "is_letter c = (c \<in> set ''abcdefghijklmnopqrstuvwxyzABCDEFGHIJKLMNOPQRSTUVWXYZ'')"

definition toLowerCase :: "char \<Rightarrow> char" where
  "toLowerCase c =
     (case map_of (zip ''ABCDEFGHIJKLMNOPQRSTUVWXYZ'' ''abcdefghijklmnopqrstuvwxyz'') c of
        Some l \<Rightarrow> l
      | None \<Rightarrow> c)"

definition fsPath :: "Uri \<Rightarrow> string" where
  "fsPath u =
     (case path u of
        a # b # c # rest \<Rightarrow>
          if a = CHR ''/'' \<and> is_letter b \<and> c = CHR '':'' then toLowerCase b # c # rest
          else path u
      | _ \<Rightarrow> path u)"

subsection \<open>sanitizeArgs\<close>

text \<open>The callback of \<^verbatim>\<open>sanitizeArgs\<close>; the threaded variable is \<^verbatim>\<open>isOutfile\<close>.\<close>

definition sanitize_cb :: "bool \<Rightarrow> string \<Rightarrow> bool \<times> bool" where
  "sanitize_cb isOutfile arg =
     (if \<not> isOutfile then
        (let isOutfile' = (arg = ''-o'')
         in ((if isOutfile' then False else arg \<noteq> ''-c'' \<and> arg \<noteq> ''-g''), isOutfile'))
      else (False, False))"

definition sanitizeArgs :: "string list \<Rightarrow> string list" where
  "sanitizeArgs args = filter_st sanitize_cb False args"

text \<open>
  For every position of the input: was \<^verbatim>\<open>isOutfile\<close> set when the callback saw it, and was
  the token kept.
\<close>

definition sanitize_trace :: "string list \<Rightarrow> (bool \<times> bool) list" where
  "sanitize_trace args = filter_trace sanitize_cb False args"

definition isOutfile_at :: "string list \<Rightarrow> nat \<Rightarrow> bool" where
  "isOutfile_at args i = fst (sanitize_trace args ! i)"

definition kept_at :: "string list \<Rightarrow> nat \<Rightarrow> bool" where
  "kept_at args i = snd (sanitize_trace args ! i)"

subsection \<open>Command synthesis\<close>

definition getCommand :: "string list \<Rightarrow> string" where
  "getCommand args = join '' '' args"

definition getDisassembleCommand :: "CompileCommand \<Rightarrow> string \<Rightarrow> string" where
  "getDisassembleCommand c outFile =
     getCommand ([cc_command c, ''-g1'', ''-S'', ''-masm=intel'', ''-fno-unwind-tables'',
                  ''-fno-asynchronous-unwind-tables'', ''-fno-dwarf2-cfi-asm'']
                 @ cc_args c @ [''-o'', [CHR 0x22] @ outFile @ [CHR 0x22]])"

definition getPreprocessCommand :: "CompileCommand \<Rightarrow> string \<Rightarrow> string" where
  "getPreprocessCommand c outFile =
     getCommand ([cc_command c, ''-E'', ''-o'', outFile] @ cc_args c)"

definition getLLVMDisassembleCommand :: "CompileCommand \<Rightarrow> string \<Rightarrow> string" where
  "getLLVMDisassembleCommand c outFile =
     getCommand ([cc_command c, ''-g'', ''-S'', ''-emit-llvm'', ''-o'', outFile] @ cc_args c)"

subsection \<open>process\<close>

text \<open>
  An empty token list leaves \<^verbatim>\<open>commands[0]\<close> undefined, which \<^verbatim>\<open>join\<close> prints as the empty
  string; the model stores the empty string.
\<close>

definition process :: "string \<Rightarrow> CompileCommand \<Rightarrow> CompileCommand" where
  "process cwd c =
     (let commands = filter (\<lambda>arg. 0 < length arg)
                       (if 0 < length (raw_command c) then match_all (raw_command c)
                        else raw_arguments c)
      in c\<lparr>cc_uri := Uri_file (Path_resolve cwd [directory c, cc_file c]),
           cc_command := (case commands of [] \<Rightarrow> [] | x # _ \<Rightarrow> x),
           cc_args := sanitizeArgs (drop 1 commands)\<rparr>)"


subsection \<open>Artifact URIs\<close>

text \<open>
  The configuration: \<^verbatim>\<open>outDir\<close> and the path of the compilation database, both as the
  helper \<^verbatim>\<open>resolvePath\<close> returns them, the workspace root (\<open>None\<close> when no folder is
  open) and the working directory.
\<close>

record config =
  outDir :: string
  compileCommandsPath :: string
  rootPath :: "string option"
  cwd :: string

text \<open>\<^verbatim>\<open>s.lastIndexOf(".")\<close> and \<^verbatim>\<open>s.slice(i, s.length)\<close>, where a negative \<open>i\<close> counts from the end.\<close>

fun lastIndexOf :: "char \<Rightarrow> string \<Rightarrow> int" where
  "lastIndexOf c [] = -1"
| "lastIndexOf c (x # xs) =
     (let r = lastIndexOf c xs
      in if 0 \<le> r then r + 1 else if x = c then 0 else -1)"

definition slice_from :: "string \<Rightarrow> int \<Rightarrow> string" where
  "slice_from s i =
     (if i < 0 then drop (nat (max (int (length s) + i) 0)) s else drop (nat i) s)"

definition replace_slashes :: "string \<Rightarrow> string" where
  "replace_slashes s = map (\<lambda>c. if c = CHR ''/'' then CHR ''@'' else c) s"

definition artifact_ext :: "Uri \<Rightarrow> string \<Rightarrow> string" where
  "artifact_ext src sch =
     (if sch = ''disassembly'' then ''.s''
      else if sch = ''llvm'' then ''.ll''
      else ''.E'' @ slice_from (path src) (lastIndexOf CHR ''.'' (path src)))"

text \<open>
  The URI \<^verbatim>\<open>getUriForScheme\<close> computes; \<^verbatim>\<open>Path.relative\<close> throws when the workspace root
  is undefined.
\<close>

definition artifact_uri :: "config \<Rightarrow> Uri \<Rightarrow> string \<Rightarrow> error + Uri" where
  "artifact_uri cfg src sch =
     (let ext = artifact_ext src sch
      in case rootPath cfg of
           None \<Rightarrow> Inl TypeError
         | Some root \<Rightarrow>
             (let relativePath = Path_relative (cwd cfg) root (path src)
              in Uri_with src sch (outDir cfg @ replace_slashes relativePath @ ext)))"

section \<open>The file system, the clock and external processes\<close>

text \<open>
  The world outside the program: the modification time, in milliseconds, of every path that
  exists (files and directories alike, each path string naming its own entry, the empty
  string naming none); what reading and deserialising the compilation database yields
  (\<open>None\<close> when \<^verbatim>\<open>readFileSync\<close>, \<^verbatim>\<open>JSON.parse\<close> or the deserialiser throws); and the time
  \<^verbatim>\<open>new Date()\<close> returns.
\<close>

record world =
  files :: "string \<Rightarrow> int option"
  database :: "CompileCommand list option"
  clock :: int

definition lookup_path :: "world \<Rightarrow> string \<Rightarrow> int option" where
  "lookup_path w p = (if p = [] then None else files w p)"

definition existsSync :: "world \<Rightarrow> string \<Rightarrow> bool" where
  "existsSync w p = (lookup_path w p \<noteq> None)"

definition statSync :: "world \<Rightarrow> string \<Rightarrow> error + int" where
  "statSync w p =
     (case lookup_path w p of None \<Rightarrow> Inl (ENOENT p) | Some mtime \<Rightarrow> Inr mtime)"

text \<open>
  The non-recursive \<^verbatim>\<open>mkdirSync\<close>: it throws when the path exists already and when the
  directory it lies in does not exist.
\<close>

definition mkdirSync :: "string \<Rightarrow> world \<Rightarrow> string \<Rightarrow> error + world" where
  "mkdirSync wd w p =
     (if p = [] then Inl (ENOENT p)
      else if lookup_path w p \<noteq> None then Inl (EEXIST p)
      else if lookup_path w (parent_dir wd p) = None then Inl (ENOENT p)
      else Inr (w\<lparr>files := (files w)(p \<mapsto> clock w)\<rparr>))"

text \<open>
  The result of \<^verbatim>\<open>child_process.spawnSync\<close>: the exit status (\<open>None\<close> for \<^verbatim>\<open>null\<close>), the
  signal that ended the process if one did, the message of \<^verbatim>\<open>result.error\<close> when the
  process could not be started, and the captured output array when there is one (a
  \<^verbatim>\<open>null\<close> entry prints as the empty string). What a
  process does is not known to the program: it is a function of the command line, the
  working directory and the world, returning the result and the world it leaves.
\<close>

record SpawnResult =
  status :: "int option"
  signal :: "string option"
  spawn_error :: "string option"
  spawn_output :: "string list option"

type_synonym spawner = "string \<Rightarrow> string \<Rightarrow> world \<Rightarrow> SpawnResult \<times> world"

section \<open>The registry\<close>

record CompileInfo =
  ci_uri :: Uri
  srcUri :: Uri
  ci_command :: string
  compilationDirectory :: string
  ci_extraArgs :: "string list"

definition new_CompileInfo :: "Uri \<Rightarrow> Uri \<Rightarrow> string \<Rightarrow> string \<Rightarrow> CompileInfo" where
  "new_CompileInfo u src cmd dir =
     \<lparr>ci_uri = u, srcUri = src, ci_command = cmd, compilationDirectory = dir,
      ci_extraArgs = []\<rparr>"

text \<open>
  Modelled from the spec: the helper \<^verbatim>\<open>arrayEquals\<close> of the utilities module, which the
  spec describes as an order-sensitive comparison of the two argument lists.
\<close>

definition arrayEquals :: "string list \<Rightarrow> string list \<Rightarrow> bool" where
  "arrayEquals a b = (a = b)"

definition extraArgsChanged :: "CompileInfo \<Rightarrow> string list \<Rightarrow> bool" where
  "extraArgsChanged info extraArgs = (\<not> arrayEquals extraArgs (ci_extraArgs info))"

text \<open>
  The static fields of \<^verbatim>\<open>CompileCommands\<close>, the command lines handed to \<^verbatim>\<open>spawnSync\<close>
  so far, each with its working directory, and the world. The error channel is its lines,
  or \<open>None\<close> while the field is undefined.
  A \<^verbatim>\<open>CompileInfo\<close> object is reached through the key it is stored under.
\<close>

record state =
  compileCommands :: "string \<rightharpoonup> CompileInfo"
  asmUriMap :: "string \<rightharpoonup> Uri"
  llvmUriMap :: "string \<rightharpoonup> Uri"
  preprocessUriMap :: "string \<rightharpoonup> Uri"
  initTime :: "int option"
  extraArgs :: "string list"
  errorChannel :: "string list option"
  spawned :: "(string \<times> string) list"
  world :: world

datatype compile_result = RBool bool | RStr string

definition setExtraCompileArgs :: "state \<Rightarrow> string list \<Rightarrow> state" where
  "setExtraCompileArgs s args = s\<lparr>extraArgs := args\<rparr>"

definition getExtraCompileArgs :: "state \<Rightarrow> string" where
  "getExtraCompileArgs s = join '' '' (extraArgs s)"

definition getCompileCommandsPath :: "config \<Rightarrow> string" where
  "getCompileCommandsPath cfg = compileCommandsPath cfg"

definition createOutputDirectory :: "config \<Rightarrow> world \<Rightarrow> error + world" where
  "createOutputDirectory cfg w =
     (if \<not> existsSync w (outDir cfg) then mkdirSync (cwd cfg) w (outDir cfg) else Inr w)"

definition getUriForScheme :: "config \<Rightarrow> world \<Rightarrow> Uri \<Rightarrow> string \<Rightarrow> error + Uri \<times> world" where
  "getUriForScheme cfg w src sch =
     (case artifact_uri cfg src sch of
        Inl e \<Rightarrow> Inl e
      | Inr dstUri \<Rightarrow>
          (case createOutputDirectory cfg w of
             Inl e \<Rightarrow> Inl e
           | Inr w' \<Rightarrow> Inr (dstUri, w')))"

definition encodeAsmUri :: "config \<Rightarrow> world \<Rightarrow> Uri \<Rightarrow> error + Uri \<times> world" where
  "encodeAsmUri cfg w u = getUriForScheme cfg w u ''disassembly''"

definition encodeLLVMUri :: "config \<Rightarrow> world \<Rightarrow> Uri \<Rightarrow> error + Uri \<times> world" where
  "encodeLLVMUri cfg w u = getUriForScheme cfg w u ''llvm''"

definition encodePreprocessUri :: "config \<Rightarrow> world \<Rightarrow> Uri \<Rightarrow> error + Uri \<times> world" where
  "encodePreprocessUri cfg w u = getUriForScheme cfg w u (scheme u)"



text \<open>
  A stateful operation returns what it returns or throws, together with the state it
  leaves: an exception does not undo the writes made before it.
\<close>

definition processCompileCommand ::
  "config \<Rightarrow> state \<Rightarrow> CompileCommand \<Rightarrow> (error + unit) \<times> state" where
  "processCompileCommand cfg s compileCommand =
     (let c = process (cwd cfg) compileCommand;
          src = cc_uri c
      in case encodeAsmUri cfg (world s) src of
           Inl e \<Rightarrow> (Inl e, s)
         | Inr (asmUri, w1) \<Rightarrow>
        (case encodeLLVMUri cfg w1 src of
           Inl e \<Rightarrow> (Inl e, s\<lparr>world := w1\<rparr>)
         | Inr (llvmUri, w2) \<Rightarrow>
        (case encodePreprocessUri cfg w2 src of
           Inl e \<Rightarrow> (Inl e, s\<lparr>world := w2\<rparr>)
         | Inr (preprocessUri, w3) \<Rightarrow>
             (Inr (),
              s\<lparr>world := w3,
                asmUriMap := (asmUriMap s)(path src \<mapsto> asmUri),
                llvmUriMap := (llvmUriMap s)(path src \<mapsto> llvmUri),
                preprocessUriMap := (preprocessUriMap s)(path src \<mapsto> preprocessUri),
                compileCommands :=
                  (compileCommands s)
                    (path asmUri \<mapsto>
                       new_CompileInfo asmUri src
                         (getDisassembleCommand c (path asmUri)) (directory c),
                     path llvmUri \<mapsto>
                       new_CompileInfo llvmUri src
                         (getLLVMDisassembleCommand c (path llvmUri)) (directory c),
                     path preprocessUri \<mapsto>
                       new_CompileInfo preprocessUri src
                         (getPreprocessCommand c (path preprocessUri)) (directory c))\<rparr>))))"

text \<open>\<^verbatim>\<open>compileCommands.forEach(processCompileCommand)\<close>: the first exception ends the loop.\<close>

fun processAll :: "config \<Rightarrow> state \<Rightarrow> CompileCommand list \<Rightarrow> (error + unit) \<times> state" where
  "processAll cfg s [] = (Inr (), s)"
| "processAll cfg s (c # cs) =
     (case processCompileCommand cfg s c of
        (Inl e, s') \<Rightarrow> (Inl e, s')
      | (Inr _, s') \<Rightarrow> processAll cfg s' cs)"

definition parseCompileCommands :: "world \<Rightarrow> error + CompileCommand list" where
  "parseCompileCommands w =
     (case database w of None \<Rightarrow> Inl ParseError | Some ccs \<Rightarrow> Inr ccs)"

text \<open>\<open>channel\<close> is the argument of \<^verbatim>\<open>init\<close>: an error channel, or \<open>None\<close> for \<^verbatim>\<open>undefined\<close>.\<close>

definition init ::
  "config \<Rightarrow> string list option \<Rightarrow> state \<Rightarrow> (error + bool) \<times> state" where
  "init cfg channel s =
     (if existsSync (world s) (getCompileCommandsPath cfg) then
        (case parseCompileCommands (world s) of
           Inl e \<Rightarrow> (Inl e, s)
         | Inr ccs \<Rightarrow>
        (case processAll cfg s ccs of
           (Inl e, s1) \<Rightarrow> (Inl e, s1)
         | (Inr _, s1) \<Rightarrow>
        (let s2 = s1\<lparr>errorChannel := channel\<rparr>
         in case createOutputDirectory cfg (world s2) of
              Inl e \<Rightarrow> (Inl e, s2)
            | Inr w \<Rightarrow> (Inr True, s2\<lparr>world := w, initTime := Some (clock w)\<rparr>))))
      else (Inr False, s))"

subsection \<open>Staleness\<close>

text \<open>The second argument of \<^verbatim>\<open>fileNewer\<close>: a path, a date or \<^verbatim>\<open>undefined\<close>.\<close>

datatype target = TPath string | TDate int | TUndefined

definition falsy :: "target \<Rightarrow> bool" where
  "falsy t = (case t of TUndefined \<Rightarrow> True | TPath p \<Rightarrow> p = [] | TDate _ \<Rightarrow> False)"

definition fileNewer :: "world \<Rightarrow> string \<Rightarrow> target \<Rightarrow> error + bool" where
  "fileNewer w source tgt =
     (if falsy tgt then Inr True
      else case statSync w source of
             Inl e \<Rightarrow> Inl e
           | Inr srcMtime \<Rightarrow>
               (case tgt of
                  TDate d \<Rightarrow> Inr (d < srcMtime)
                | TPath p \<Rightarrow>
                    (if existsSync w p then
                       (case statSync w p of
                          Inl e \<Rightarrow> Inl e
                        | Inr tgtMtime \<Rightarrow> Inr (tgtMtime < srcMtime))
                     else Inr True)
                | TUndefined \<Rightarrow> Inr True))"

text \<open>The disjunction evaluates left to right and stops at the first true operand.\<close>

definition needCompilation :: "config \<Rightarrow> state \<Rightarrow> CompileInfo \<Rightarrow> error + bool" where
  "needCompilation cfg s compileInfo =
     (if extraArgsChanged compileInfo (extraArgs s) then Inr True
      else case fileNewer (world s) (path (srcUri compileInfo))
                  (TPath (path (ci_uri compileInfo))) of
             Inl e \<Rightarrow> Inl e
           | Inr True \<Rightarrow> Inr True
           | Inr False \<Rightarrow>
               fileNewer (world s) (getCompileCommandsPath cfg)
                 (TPath (path (ci_uri compileInfo))))"

definition update :: "config \<Rightarrow> state \<Rightarrow> (error + unit) \<times> state" where
  "update cfg s =
     (case fileNewer (world s) (getCompileCommandsPath cfg)
             (case initTime s of None \<Rightarrow> TUndefined | Some t \<Rightarrow> TDate t) of
        Inl e \<Rightarrow> (Inl e, s)
      | Inr True \<Rightarrow>
          (case init cfg (errorChannel s) (s\<lparr>compileCommands := Map.empty\<rparr>) of
             (Inl e, s') \<Rightarrow> (Inl e, s')
           | (Inr _, s') \<Rightarrow> (Inr (), s'))
      | Inr False \<Rightarrow> (Inr (), s))"

definition getCompileInfo :: "state \<Rightarrow> Uri \<Rightarrow> CompileInfo option" where
  "getCompileInfo s u = compileCommands s (path u)"

subsection \<open>Running the build\<close>

text \<open>Decimal and hexadecimal \<^verbatim>\<open>toString\<close> of numbers.\<close>

definition digit_char :: "nat \<Rightarrow> char" where
  "digit_char d = ''0123456789abcdef'' ! d"

fun toString16 :: "nat \<Rightarrow> string" where
  "toString16 n =
     (if n < 16 then [digit_char n] else toString16 (n div 16) @ [digit_char (n mod 16)])"

fun toString10 :: "nat \<Rightarrow> string" where
  "toString10 n =
     (if n < 10 then [digit_char n] else toString10 (n div 10) @ [digit_char (n mod 10)])"

declare toString16.simps [simp del] toString10.simps [simp del]

definition int_toString :: "int \<Rightarrow> string" where
  "int_toString i = (if i < 0 then CHR ''-'' # toString10 (nat (- i)) else toString10 (nat i))"

text \<open>
  \<^verbatim>\<open>result.status || result.error\<close>: a status other than zero, or an error object.
\<close>

definition build_failed :: "SpawnResult \<Rightarrow> bool" where
  "build_failed r = ((case status r of None \<Rightarrow> False | Some n \<Rightarrow> n \<noteq> 0) \<or> spawn_error r \<noteq> None)"

definition error_text :: "SpawnResult \<Rightarrow> string" where
  "error_text r =
     (case spawn_error r of
        Some message \<Rightarrow> message
      | None \<Rightarrow> (case spawn_output r of Some out \<Rightarrow> join [CHR 0x0A] out | None \<Rightarrow> []))"

definition status_text :: "SpawnResult \<Rightarrow> string" where
  "status_text r = (case status r of None \<Rightarrow> ''null'' | Some n \<Rightarrow> int_toString n)"

definition filtcmd :: "CompileInfo \<Rightarrow> string" where
  "filtcmd compileInfo =
     ''echo '' @ [CHR 0x22] @ ''`c++filt -t < '' @ [CHR 0x27] @ fsPath (ci_uri compileInfo)
       @ [CHR 0x27] @ ''`'' @ [CHR 0x22] @ '' > '' @ [CHR 0x27] @ fsPath (ci_uri compileInfo)
       @ [CHR 0x27]"

text \<open>The command line of the build, and what running it in the current world returns.\<close>

definition build_command :: "state \<Rightarrow> CompileInfo \<Rightarrow> string" where
  "build_command s compileInfo = ci_command compileInfo @ '' '' @ getExtraCompileArgs s"

definition build_result :: "spawner \<Rightarrow> state \<Rightarrow> CompileInfo \<Rightarrow> SpawnResult" where
  "build_result spawnSync s compileInfo =
     fst (spawnSync (build_command s compileInfo) (compilationDirectory compileInfo) (world s))"

text \<open>
  \<^verbatim>\<open>this.errorChannel.appendLine(line)\<close> on a channel that is defined.
\<close>

definition appendLine :: "string \<Rightarrow> state \<Rightarrow> state" where
  "appendLine line s = s\<lparr>errorChannel := map_option (\<lambda>ls. ls @ [line]) (errorChannel s)\<rparr>"

text \<open>
  \<open>key\<close> is the key under which the registry holds the object \<^verbatim>\<open>compileInfo\<close>: the
  assignment to its field is a write to that entry. The first use of the error channel
  throws when the field is undefined, before any process is started.
\<close>

definition execCompileCommand ::
  "spawner \<Rightarrow> state \<Rightarrow> string \<Rightarrow> CompileInfo \<Rightarrow> (error + compile_result) \<times> state" where
  "execCompileCommand spawnSync s key compileInfo =
     (let command = build_command s compileInfo
      in case errorChannel s of
           None \<Rightarrow> (Inl TypeError, s)
         | Some _ \<Rightarrow>
        (let s1 = appendLine command (s\<lparr>errorChannel := Some []\<rparr>);
             (result, w1) = spawnSync command (compilationDirectory compileInfo) (world s1);
             s2 = s1\<lparr>spawned := spawned s1 @ [(command, compilationDirectory compileInfo)],
                     world := w1\<rparr>;
             s3 = appendLine (filtcmd compileInfo) s2;
             (filtstdout, w2) =
                spawnSync (filtcmd compileInfo) (compilationDirectory compileInfo) (world s3);
             s4 = s3\<lparr>spawned :=
                       spawned s3 @ [(filtcmd compileInfo, compilationDirectory compileInfo)],
                     world := w2\<rparr>;
             s5 = (case status filtstdout of
                     None \<Rightarrow> s4
                   | Some n \<Rightarrow> appendLine (int_toString n) s4)
         in if build_failed result then
              (Inr (RStr (error_text result @ ''  failed with error code ''
                          @ status_text result)), s5)
            else
              (Inr (RBool True),
               s5\<lparr>compileCommands :=
                    (compileCommands s5)
                      (key \<mapsto> compileInfo\<lparr>ci_extraArgs := extraArgs s5\<rparr>)\<rparr>)))"

subsection \<open>Public operations\<close>

definition compile ::
  "config \<Rightarrow> spawner \<Rightarrow> state \<Rightarrow> Uri \<Rightarrow> (error + compile_result) \<times> state" where
  "compile cfg spawnSync s u =
     (case update cfg s of
        (Inl e, s1) \<Rightarrow> (Inl e, s1)
      | (Inr _, s1) \<Rightarrow>
          (case getCompileInfo s1 u of
             Some compileInfo \<Rightarrow>
               (case needCompilation cfg s1 compileInfo of
                  Inl e \<Rightarrow> (Inl e, s1)
                | Inr True \<Rightarrow> execCompileCommand spawnSync s1 (path u) compileInfo
                | Inr False \<Rightarrow> (Inr (RBool True), s1))
           | None \<Rightarrow> (Inr (RBool False), s1)))"

definition getSrcUri :: "config \<Rightarrow> state \<Rightarrow> Uri \<Rightarrow> (error + Uri option) \<times> state" where
  "getSrcUri cfg s u =
     (case update cfg s of
        (Inl e, s1) \<Rightarrow> (Inl e, s1)
      | (Inr _, s1) \<Rightarrow> (Inr (map_option srcUri (compileCommands s1 (path u))), s1))"

definition getAsmUri :: "config \<Rightarrow> state \<Rightarrow> Uri \<Rightarrow> (error + Uri option) \<times> state" where
  "getAsmUri cfg s u =
     (case update cfg s of
        (Inl e, s1) \<Rightarrow> (Inl e, s1)
      | (Inr _, s1) \<Rightarrow> (Inr (asmUriMap s1 (path u)), s1))"

definition getLLVMUri :: "config \<Rightarrow> state \<Rightarrow> Uri \<Rightarrow> (error + Uri option) \<times> state" where
  "getLLVMUri cfg s u =
     (case update cfg s of
        (Inl e, s1) \<Rightarrow> (Inl e, s1)
      | (Inr _, s1) \<Rightarrow> (Inr (llvmUriMap s1 (path u)), s1))"

definition getPreprocessUri :: "config \<Rightarrow> state \<Rightarrow> Uri \<Rightarrow> (error + Uri option) \<times> state" where
  "getPreprocessUri cfg s u =
     (case update cfg s of
        (Inl e, s1) \<Rightarrow> (Inl e, s1)
      | (Inr _, s1) \<Rightarrow> (Inr (preprocessUriMap s1 (path u)), s1))"


section \<open>Documents\<close>

text \<open>
  Modelled from the spec: the line classes of the parser module, a plain line with its text
  and a line that also carries a numeric address.
\<close>

datatype AsmLine = AsmLine string | BinaryAsmLine string nat

record AsmDocument =
  lines :: "AsmLine list"
  compileResult :: compile_result

text \<open>
  What reading the artifact and parsing it yields is a function of the world and the URI,
  outside the program; it may throw.
\<close>

type_synonym assembly_reader = "world \<Rightarrow> Uri \<Rightarrow> error + AsmLine list"

definition new_AsmDocument ::
  "config \<Rightarrow> spawner \<Rightarrow> assembly_reader \<Rightarrow> state \<Rightarrow> Uri \<Rightarrow> (error + AsmDocument) \<times> state" where
  "new_AsmDocument cfg spawnSync processAssemblyFile s u =
     (case compile cfg spawnSync s u of
        (Inl e, s1) \<Rightarrow> (Inl e, s1)
      | (Inr r, s1) \<Rightarrow>
          (if r = RBool True then
             (case processAssemblyFile (world s1) u of
                Inl e \<Rightarrow> (Inl e, s1)
              | Inr ls \<Rightarrow> (Inr \<lparr>lines = ls, compileResult = r\<rparr>, s1))
           else (Inr \<lparr>lines = [], compileResult = r\<rparr>, s1)))"

text \<open>\<^verbatim>\<open>s.substr(-8)\<close>: the last eight characters, or all of a shorter string.\<close>

definition substr_last8 :: "string \<Rightarrow> string" where
  "substr_last8 s = drop (length s - 8) s"

definition render_line :: "AsmLine \<Rightarrow> string" where
  "render_line line =
     (case line of
        BinaryAsmLine text address \<Rightarrow>
          ''<'' @ substr_last8 (''0000000'' @ toString16 address) @ ''> '' @ text @ [CHR 0x0A]
      | AsmLine text \<Rightarrow> text @ [CHR 0x0A])"

definition doc_value :: "AsmDocument \<Rightarrow> string" where
  "doc_value d =
     (case compileResult d of
        RBool False \<Rightarrow> ''Failed to compile.''
      | RStr e \<Rightarrow> (if e = [] then ''Failed to compile.'' else e)
      | RBool True \<Rightarrow> foldl (\<lambda>result line. result @ render_line line) [] (lines d))"


section \<open>The command lines and the rendering as the specification words them\<close>

text \<open>
  The specification's table puts the output clause of the intermediate-representation and
  preprocessor commands after the sanitized arguments, and renders a document as its lines
  joined by newlines.
\<close>

definition spec_llvm_command :: "CompileCommand \<Rightarrow> string \<Rightarrow> string" where
  "spec_llvm_command c outFile =
     join '' '' ([cc_command c, ''-g'', ''-S'', ''-emit-llvm''] @ cc_args c @ [''-o'', outFile])"

definition spec_preprocess_command :: "CompileCommand \<Rightarrow> string \<Rightarrow> string" where
  "spec_preprocess_command c outFile =
     join '' '' ([cc_command c, ''-E''] @ cc_args c @ [''-o'', outFile])"

definition spec_line :: "AsmLine \<Rightarrow> string" where
  "spec_line line =
     (case line of
        BinaryAsmLine text address \<Rightarrow>
          ''<'' @ substr_last8 (''0000000'' @ toString16 address) @ ''> '' @ text
      | AsmLine text \<Rightarrow> text)"

definition spec_value :: "AsmLine list \<Rightarrow> string" where
  "spec_value ls = join [CHR 0x0A] (map spec_line ls)"

text \<open>
  The command line the specification's end-to-end example gives for the disassembly of
  \<^verbatim>\<open>/p/a.c\<close>, with \<^verbatim>\<open>/out\<close> for the output directory.
\<close>

definition spec_asm_command0 :: string where
  "spec_asm_command0 =
     ''/usr/bin/cc -g1 -S -masm=intel -fno-unwind-tables -fno-asynchronous-unwind-tables ''
     @ ''-fno-dwarf2-cfi-asm -O2 -o '' @ [CHR 0x22] @ ''/out/a@c.s'' @ [CHR 0x22]"

section \<open>A concrete workspace\<close>

text \<open>
  The workspace of the specification's end-to-end example: one database entry for
  \<^verbatim>\<open>/p/a.c\<close>, the workspace rooted at \<^verbatim>\<open>/p\<close>, the output directory \<^verbatim>\<open>/out/\<close>. In the
  initial world the database was written at time 10, the source at time 20, the output
  directory exists, and the clock shows 100.
\<close>

definition cfg0 :: config where
  "cfg0 = \<lparr>outDir = ''/out/'', compileCommandsPath = ''/p/compile_commands.json'',
           rootPath = Some ''/p'', cwd = ''/p''\<rparr>"

definition entry0 :: CompileCommand where
  "entry0 = \<lparr>cc_file = ''a.c'', raw_command = ''/usr/bin/cc -O2 -g -c a.c -o a.o'',
             raw_arguments = [], directory = ''/p'', cc_uri = Uri_file [], cc_command = [],
             cc_args = [[]]\<rparr>"

definition world0 :: world where
  "world0 =
     \<lparr>files = [''/p/compile_commands.json'' \<mapsto> 10, ''/p/a.c'' \<mapsto> 20, ''/out/'' \<mapsto> 5],
      database = Some [entry0], clock = 100\<rparr>"

definition state0 :: state where
  "state0 =
     \<lparr>compileCommands = Map.empty, asmUriMap = Map.empty, llvmUriMap = Map.empty,
      preprocessUriMap = Map.empty, initTime = None, extraArgs = [], errorChannel = None,
      spawned = [], world = world0\<rparr>"

text \<open>
  The state after the first load with an empty error channel, the state after a first load
  without channel, and the URI of the disassembly of \<^verbatim>\<open>/p/a.c\<close>.
\<close>

definition loaded0 :: state where
  "loaded0 = snd (init cfg0 (Some []) state0)"


definition asm0 :: Uri where
  "asm0 = \<lparr>scheme = ''disassembly'', path = ''/out/a.c.s''\<rparr>"

definition asm_command0 :: string where
  "asm_command0 =
     ''/usr/bin/cc -g1 -S -masm=intel -fno-unwind-tables -fno-asynchronous-unwind-tables ''
     @ ''-fno-dwarf2-cfi-asm -O2 a.c -o '' @ [CHR 0x22] @ ''/out/a.c.s'' @ [CHR 0x22]"

definition asm_info0 :: CompileInfo where
  "asm_info0 =
     \<lparr>ci_uri = asm0, srcUri = \<lparr>scheme = ''file'', path = ''/p/a.c''\<rparr>,
      ci_command = asm_command0, compilationDirectory = ''/p'', ci_extraArgs = []\<rparr>"

text \<open>
  External behaviours. A compiler that exits with status 1 and writes nothing, with a
  post-pass that does nothing either; processes that exit with status 0 and leave the
  disassembly written at the current time; a compiler that exits with status 1, followed
  by a post-pass whose shell redirection creates the disassembly; and a compiler ended by a
  signal, so that there is neither an exit status nor an error object.
\<close>

definition failing :: spawner where
  "failing cmd dir w =
     (\<lparr>status = Some 1, signal = None, spawn_error = None,
       spawn_output = Some [[], [], ''error'']\<rparr>, w)"


definition failing_build :: spawner where
  "failing_build cmd dir w =
     (if cmd = filtcmd asm_info0 then
        (\<lparr>status = Some 0, signal = None, spawn_error = None,
          spawn_output = Some [[], [], []]\<rparr>,
         w\<lparr>files := (files w)(''/out/a.c.s'' \<mapsto> clock w)\<rparr>)
      else
        (\<lparr>status = Some 1, signal = None, spawn_error = None,
          spawn_output = Some [[], [], ''error'']\<rparr>, w))"

definition killed :: spawner where
  "killed cmd dir w =
     (\<lparr>status = None, signal = Some ''SIGKILL'', spawn_error = None,
       spawn_output = Some [[], [], []]\<rparr>, w)"

text \<open>The loaded state in a world changed from outside: the files and the clock replaced.\<close>

definition with_files :: "state \<Rightarrow> (string \<Rightarrow> int option) \<Rightarrow> int \<Rightarrow> state" where
  "with_files s fs now = s\<lparr>world := (world s)\<lparr>files := fs, clock := now\<rparr>\<rparr>"

text \<open>
  Four later worlds, the registry still as loaded at time 100: the disassembly was written
  at time 30; the source was deleted and the disassembly is older than the database; the
  database was deleted; the database was rewritten at time 200 and the disassembly at time
  300.
\<close>

definition built0 :: state where
  "built0 =
     with_files loaded0
       [''/p/compile_commands.json'' \<mapsto> 10, ''/p/a.c'' \<mapsto> 20, ''/out/'' \<mapsto> 5,
        ''/out/a.c.s'' \<mapsto> 30] 150"

definition source_deleted :: state where
  "source_deleted =
     with_files loaded0
       [''/p/compile_commands.json'' \<mapsto> 10, ''/out/'' \<mapsto> 5, ''/out/a.c.s'' \<mapsto> 5] 150"

definition database_deleted :: state where
  "database_deleted = with_files loaded0 [''/p/a.c'' \<mapsto> 20, ''/out/'' \<mapsto> 5] 150"




section \<open>Properties of sanitizeArgs\<close>

lemma filter_st_trace:
  "filter_st cb s xs =
     map fst (filter (\<lambda>(x, before, keep). keep) (zip xs (filter_trace cb s xs)))"
  by (induction xs arbitrary: s) (auto split: prod.splits)

lemma sanitize_never_keeps_flags:
  "t \<in> {''-c'', ''-g'', ''-o''} \<Longrightarrow> t \<notin> set (filter_st sanitize_cb b args)"
  by (induction args arbitrary: b) (auto simp: sanitize_cb_def Let_def split: if_splits)

lemma sanitize_flag_drops_pair:
  "Suc i < length args \<Longrightarrow> args ! i = ''-o'' \<Longrightarrow>
   \<not> fst (filter_trace sanitize_cb b args ! i) \<Longrightarrow>
   \<not> snd (filter_trace sanitize_cb b args ! i) \<and> \<not> snd (filter_trace sanitize_cb b args ! Suc i)"
proof (induction args arbitrary: b i)
  case Nil
  then show ?case by simp
next
  case (Cons a args)
  show ?case
  proof (cases i)
    case 0
    with Cons.prems obtain a' rest where args: "args = a' # rest"
      by (cases args) auto
    from 0 Cons.prems have "a = ''-o''" "\<not> b"
      by (auto split: prod.splits)
    then show ?thesis
      using 0 args by (simp add: sanitize_cb_def)
  next
    case (Suc j)
    with Cons.prems have "Suc j < length args" "args ! j = ''-o''"
      "\<not> fst (filter_trace sanitize_cb (snd (sanitize_cb b a)) args ! j)"
      by (auto split: prod.splits)
    from Cons.IH[OF this] show ?thesis
      using Suc by (auto split: prod.splits)
  qed
qed

lemma sanitize_final_o:
  "filter_st sanitize_cb b (args @ [''-o'']) = filter_st sanitize_cb b args"
  by (induction args arbitrary: b) (auto simp: sanitize_cb_def Let_def split: prod.splits)

text \<open>
  C3, as amended. The pass turns the raw arguments \<^verbatim>\<open>-c -g -O2 -o out.o foo.c\<close> into
  \<^verbatim>\<open>-O2 foo.c\<close>. For every argument list: the result holds no \<^verbatim>\<open>-c\<close>, no \<^verbatim>\<open>-g\<close> and no
  \<^verbatim>\<open>-o\<close>; it is the input restricted to the kept positions; a \<^verbatim>\<open>-o\<close> that the pass reads
  as the output flag (it is not itself the value of a preceding output flag) is dropped
  together with the token at the next position; and a final \<^verbatim>\<open>-o\<close> changes nothing but its
  own removal.
\<close>

theorem sanitizeArgs_drops_flags_and_outfile:
  "sanitizeArgs [''-c'', ''-g'', ''-O2'', ''-o'', ''out.o'', ''foo.c''] = [''-O2'', ''foo.c'']
   \<and> ''-c'' \<notin> set (sanitizeArgs args)
   \<and> ''-g'' \<notin> set (sanitizeArgs args)
   \<and> ''-o'' \<notin> set (sanitizeArgs args)
   \<and> sanitizeArgs args =
       map fst (filter (\<lambda>(arg, isOutfile, kept). kept) (zip args (sanitize_trace args)))
   \<and> (\<forall>i. Suc i < length args \<and> args ! i = ''-o'' \<and> \<not> isOutfile_at args i
          \<longrightarrow> \<not> kept_at args i \<and> \<not> kept_at args (Suc i))
   \<and> sanitizeArgs (args @ [''-o'']) = sanitizeArgs args"
proof -
  have example: "sanitizeArgs [''-c'', ''-g'', ''-O2'', ''-o'', ''out.o'', ''foo.c''] = [''-O2'', ''foo.c'']"
    by (simp add: sanitizeArgs_def sanitize_cb_def)
  have flags: "''-c'' \<notin> set (sanitizeArgs args)" "''-g'' \<notin> set (sanitizeArgs args)"
    "''-o'' \<notin> set (sanitizeArgs args)"
    unfolding sanitizeArgs_def by (rule sanitize_never_keeps_flags, simp)+
  have kept: "sanitizeArgs args =
      map fst (filter (\<lambda>(arg, isOutfile, kept). kept) (zip args (sanitize_trace args)))"
    unfolding sanitizeArgs_def sanitize_trace_def
    by (rule filter_st_trace)
  have pair: "\<forall>i. Suc i < length args \<and> args ! i = ''-o'' \<and> \<not> isOutfile_at args i
          \<longrightarrow> \<not> kept_at args i \<and> \<not> kept_at args (Suc i)"
    unfolding isOutfile_at_def kept_at_def sanitize_trace_def
    using sanitize_flag_drops_pair by blast
  have final: "sanitizeArgs (args @ [''-o'']) = sanitizeArgs args"
    unfolding sanitizeArgs_def by (rule sanitize_final_o)
  from example flags kept pair final show ?thesis by blast
qed

text \<open>C3, witness: the output flag at position 3 of the example and the file name after it.\<close>

theorem sanitizeArgs_witness:
  "Suc 3 < length [''-c'', ''-g'', ''-O2'', ''-o'', ''out.o'', ''foo.c'']
   \<and> [''-c'', ''-g'', ''-O2'', ''-o'', ''out.o'', ''foo.c''] ! 3 = ''-o''
   \<and> \<not> isOutfile_at [''-c'', ''-g'', ''-O2'', ''-o'', ''out.o'', ''foo.c''] 3
   \<and> \<not> kept_at [''-c'', ''-g'', ''-O2'', ''-o'', ''out.o'', ''foo.c''] 3
   \<and> \<not> kept_at [''-c'', ''-g'', ''-O2'', ''-o'', ''out.o'', ''foo.c''] (Suc 3)"
proof -
  have pre: "Suc 3 < length [''-c'', ''-g'', ''-O2'', ''-o'', ''out.o'', ''foo.c'']
     \<and> [''-c'', ''-g'', ''-O2'', ''-o'', ''out.o'', ''foo.c''] ! 3 = ''-o''
     \<and> \<not> isOutfile_at [''-c'', ''-g'', ''-O2'', ''-o'', ''out.o'', ''foo.c''] 3"
    by (simp add: isOutfile_at_def sanitize_trace_def sanitize_cb_def)
  with sanitizeArgs_drops_flags_and_outfile
         [of "[''-c'', ''-g'', ''-O2'', ''-o'', ''out.o'', ''foo.c'']"]
  show ?thesis by blast
qed

text \<open>
  C3, counterexample to the claim as worded: in \<^verbatim>\<open>-o -o x\<close> the second \<^verbatim>\<open>-o\<close> is removed (as
  the value of the first), yet the token that immediately follows it is kept.
\<close>

theorem sanitizeArgs_counterexample:
  "[''-o'', ''-o'', ''x''] ! 1 = ''-o''
   \<and> \<not> kept_at [''-o'', ''-o'', ''x''] 1
   \<and> kept_at [''-o'', ''-o'', ''x''] 2
   \<and> sanitizeArgs [''-o'', ''-o'', ''x''] = [''x'']"
  by (simp add: kept_at_def sanitize_trace_def sanitizeArgs_def sanitize_cb_def)

section \<open>Properties of the synthesized commands\<close>

lemma join_cons_concat:
  "join sep (x # xs) = x @ concat (map (\<lambda>a. sep @ a) xs)"
  by (induction xs arbitrary: x) auto

lemma process_cc_entry:
  "process ''/p'' \<lparr>cc_file = ''a.c'', raw_command = ''cc -O2 -c a.c'', raw_arguments = [],
      directory = ''/p'', cc_uri = Uri_file [], cc_command = [], cc_args = [[]]\<rparr>
   = \<lparr>cc_file = ''a.c'', raw_command = ''cc -O2 -c a.c'', raw_arguments = [],
      directory = ''/p'', cc_uri = \<lparr>scheme = ''file'', path = ''/p/a.c''\<rparr>,
      cc_command = ''cc'', cc_args = [''-O2'', ''a.c'']\<rparr>"
  by code_simp

text \<open>
  C5, as amended. For every compile command and output path, the intermediate-representation
  command is the executable, then \<^verbatim>\<open>-g -S -emit-llvm\<close>, then the output clause
  \<^verbatim>\<open>-o <target>\<close>, then the arguments of the command, space-separated; the preprocessor
  command is the executable, \<^verbatim>\<open>-E\<close>, the output clause, then the arguments. In both the
  output clause comes before the arguments, which after \<^verbatim>\<open>process\<close> are the sanitized
  ones.
\<close>

theorem output_clause_precedes_arguments:
  "getLLVMDisassembleCommand c outFile =
     cc_command c @ '' -g -S -emit-llvm -o '' @ outFile
       @ concat (map (\<lambda>arg. '' '' @ arg) (cc_args c))
   \<and> getPreprocessCommand c outFile =
     cc_command c @ '' -E -o '' @ outFile @ concat (map (\<lambda>arg. '' '' @ arg) (cc_args c))
   \<and> cc_args (process wd c) =
       sanitizeArgs (drop 1 (filter (\<lambda>arg. 0 < length arg)
         (if 0 < length (raw_command c) then match_all (raw_command c)
          else raw_arguments c)))"
  by (simp add: getLLVMDisassembleCommand_def getPreprocessCommand_def getCommand_def
        join_cons_concat process_def Let_def)

text \<open>
  C5, counterexample to the claim as worded: for the entry \<^verbatim>\<open>cc -O2 -c a.c\<close> both commands
  differ from the ones with the output clause after the arguments.
\<close>

theorem output_clause_counterexample:
  "getLLVMDisassembleCommand
     (process ''/p'' \<lparr>cc_file = ''a.c'', raw_command = ''cc -O2 -c a.c'', raw_arguments = [],
        directory = ''/p'', cc_uri = Uri_file [], cc_command = [], cc_args = [[]]\<rparr>)
     ''/out/a.c.ll''
    = ''cc -g -S -emit-llvm -o /out/a.c.ll -O2 a.c''
   \<and> spec_llvm_command
     (process ''/p'' \<lparr>cc_file = ''a.c'', raw_command = ''cc -O2 -c a.c'', raw_arguments = [],
        directory = ''/p'', cc_uri = Uri_file [], cc_command = [], cc_args = [[]]\<rparr>)
     ''/out/a.c.ll''
    = ''cc -g -S -emit-llvm -O2 a.c -o /out/a.c.ll''
   \<and> getPreprocessCommand
     (process ''/p'' \<lparr>cc_file = ''a.c'', raw_command = ''cc -O2 -c a.c'', raw_arguments = [],
        directory = ''/p'', cc_uri = Uri_file [], cc_command = [], cc_args = [[]]\<rparr>)
     ''/out/a.c.E.c''
    = ''cc -E -o /out/a.c.E.c -O2 a.c''
   \<and> spec_preprocess_command
     (process ''/p'' \<lparr>cc_file = ''a.c'', raw_command = ''cc -O2 -c a.c'', raw_arguments = [],
        directory = ''/p'', cc_uri = Uri_file [], cc_command = [], cc_args = [[]]\<rparr>)
     ''/out/a.c.E.c''
    = ''cc -E -O2 a.c -o /out/a.c.E.c''"
  unfolding process_cc_entry
  by (simp add: getLLVMDisassembleCommand_def getPreprocessCommand_def getCommand_def
        spec_llvm_command_def spec_preprocess_command_def)

section \<open>Properties of the build and of documents\<close>

lemma toString16_nonempty: "toString16 n \<noteq> []"
  by (subst toString16.simps) simp

lemma toString10_nonempty: "toString10 n \<noteq> []"
  by (subst toString10.simps) simp

lemma zeros7: "''0000000'' = replicate 7 CHR ''0''"
  by (simp add: numeral_eq_Suc)

lemma substr_last8_padded:
  assumes "t \<noteq> []"
  shows "substr_last8 (''0000000'' @ t) =
           replicate (8 - length t) CHR ''0'' @ drop (length t - 8) t"
proof -
  from assms have "0 < length t" by simp
  then have "7 - (length t - 1) = 8 - length t" "length t - Suc 0 - 7 = length t - 8"
    by arith+
  then show ?thesis
    unfolding substr_last8_def zeros7 by simp
qed

lemma substr_last8_length:
  assumes "t \<noteq> []"
  shows "length (substr_last8 (''0000000'' @ t)) = 8"
proof -
  from assms have "0 < length t" by simp
  then show ?thesis
    unfolding substr_last8_padded[OF assms] by simp
qed

lemma foldl_append_concat:
  "foldl (\<lambda>result line. result @ f line) acc ls = acc @ concat (map f ls)"
  by (induction ls arbitrary: acc) auto

lemma render_line_spec: "render_line line = spec_line line @ [CHR 0x0A]"
  by (cases line) (simp_all add: render_line_def spec_line_def)

lemma exec_no_channel:
  "errorChannel s = None \<Longrightarrow>
   execCompileCommand spawnSync s key info = (Inl TypeError, s)"
  by (simp add: execCompileCommand_def)

lemma exec_fst:
  "errorChannel s = Some ch \<Longrightarrow>
   fst (execCompileCommand spawnSync s key info) =
     Inr (if build_failed (build_result spawnSync s info)
          then RStr (error_text (build_result spawnSync s info) @ ''  failed with error code ''
                     @ status_text (build_result spawnSync s info))
          else RBool True)"
  by (simp add: execCompileCommand_def Let_def case_prod_beta build_result_def
        appendLine_def)

lemma exec_error_nonempty:
  assumes "execCompileCommand spawnSync s key info = (Inr (RStr e), s')"
  shows "e \<noteq> []"
proof (cases "errorChannel s")
  case None
  with assms show ?thesis by (simp add: exec_no_channel)
next
  case (Some ch)
  from exec_fst[OF Some, of spawnSync key info] assms show ?thesis
    by (auto split: if_splits)
qed

lemma compile_error_nonempty:
  assumes "compile cfg spawnSync s u = (Inr (RStr e), s')"
  shows "e \<noteq> []"
proof -
  from assms obtain s1 info where
    "execCompileCommand spawnSync s1 (path u) info = (Inr (RStr e), s')"
    unfolding compile_def
    by (auto split: prod.splits sum.splits option.splits bool.splits)
  then show ?thesis by (rule exec_error_nonempty)
qed

text \<open>
  C9, as amended. For every document the constructor builds: if the build failed, the
  document has no parsed lines and renders as exactly the error text; if the build
  succeeded, the rendered value is the rendering of every line followed by a newline (each
  line is newline-terminated, the last one too), where a plain line renders as its text and
  a line with an address as \<^verbatim>\<open><\<close>, the hexadecimal address padded with zeros to eight
  digits (its last eight digits when longer), \<^verbatim>\<open>>\<close>, a space and the text.
\<close>

theorem document_value:
  assumes "new_AsmDocument cfg spawnSync reader s u = (Inr d, s')"
  shows "(\<forall>e. compileResult d = RStr e \<longrightarrow> lines d = [] \<and> doc_value d = e)
   \<and> (compileResult d = RBool True \<longrightarrow>
        doc_value d = concat (map (\<lambda>line. spec_line line @ [CHR 0x0A]) (lines d)))
   \<and> (\<forall>text. spec_line (AsmLine text) = text)
   \<and> (\<forall>text address.
        spec_line (BinaryAsmLine text address) =
          ''<'' @ replicate (8 - length (toString16 address)) CHR ''0''
            @ drop (length (toString16 address) - 8) (toString16 address) @ ''> '' @ text
        \<and> length (replicate (8 - length (toString16 address)) CHR ''0''
            @ drop (length (toString16 address) - 8) (toString16 address)) = 8)"
proof -
  have failed: "lines d = [] \<and> doc_value d = e" if "compileResult d = RStr e" for e
  proof -
    from assms that obtain s1 where c: "compile cfg spawnSync s u = (Inr (RStr e), s1)"
      and d: "d = \<lparr>lines = [], compileResult = RStr e\<rparr>"
      by (auto simp: new_AsmDocument_def split: prod.splits sum.splits if_splits)
    from compile_error_nonempty[OF c] d show ?thesis
      by (simp add: doc_value_def)
  qed
  have ok: "doc_value d = concat (map (\<lambda>line. spec_line line @ [CHR 0x0A]) (lines d))"
    if "compileResult d = RBool True"
    using that by (simp add: doc_value_def foldl_append_concat render_line_spec)
  have plain: "spec_line (AsmLine body) = body" for body
    by (simp add: spec_line_def)
  have addr: "spec_line (BinaryAsmLine body address) =
          ''<'' @ replicate (8 - length (toString16 address)) CHR ''0''
            @ drop (length (toString16 address) - 8) (toString16 address) @ ''> '' @ body
        \<and> length (replicate (8 - length (toString16 address)) CHR ''0''
            @ drop (length (toString16 address) - 8) (toString16 address)) = 8"
    for body address
    using substr_last8_padded[OF toString16_nonempty, of address]
      substr_last8_length[OF toString16_nonempty, of address]
    by (simp add: spec_line_def)
  from failed ok plain addr show ?thesis by blast
qed

lemma toString16_abcdef: "toString16 0xabcdef = ''abcdef''"
  by (simp add: toString16.simps digit_char_def)

text \<open>
  C9, counterexample to the claim as worded: the rendering of two lines ends with a newline,
  which the lines joined by newlines do not have.
\<close>

theorem document_value_counterexample:
  "doc_value \<lparr>lines = [AsmLine ''a'', BinaryAsmLine ''b'' 0xabcdef], compileResult = RBool True\<rparr>
     = ''a'' @ [CHR 0x0A] @ ''<00abcdef> b'' @ [CHR 0x0A]
   \<and> spec_value [AsmLine ''a'', BinaryAsmLine ''b'' 0xabcdef]
     = ''a'' @ [CHR 0x0A] @ ''<00abcdef> b''"
  by (simp add: doc_value_def render_line_def substr_last8_def toString16_abcdef
        spec_value_def spec_line_def)

lemma loaded0_lookup: "compileCommands loaded0 ''/out/a.c.s'' = Some asm_info0"
  by code_simp

text \<open>
  C9, witness: a document for the disassembly of \<^verbatim>\<open>/p/a.c\<close> whose build failed.
\<close>

theorem document_value_witness:
  "fst (new_AsmDocument cfg0 failing (\<lambda>w u. Inr []) loaded0 asm0) =
     Inr \<lparr>lines = [],
          compileResult = RStr ([CHR 0x0A, CHR 0x0A] @ ''error  failed with error code 1'')\<rparr>
   \<and> doc_value \<lparr>lines = [],
          compileResult = RStr ([CHR 0x0A, CHR 0x0A] @ ''error  failed with error code 1'')\<rparr>
       = [CHR 0x0A, CHR 0x0A] @ ''error  failed with error code 1''"
proof -
  let ?d = "\<lparr>lines = [],
          compileResult = RStr ([CHR 0x0A, CHR 0x0A] @ ''error  failed with error code 1'')\<rparr>"
  have h: "fst (new_AsmDocument cfg0 failing (\<lambda>w u. Inr []) loaded0 asm0) = Inr ?d"
    by code_simp
  then have "new_AsmDocument cfg0 failing (\<lambda>w u. Inr []) loaded0 asm0 =
      (Inr ?d, snd (new_AsmDocument cfg0 failing (\<lambda>w u. Inr []) loaded0 asm0))"
    by (metis prod.collapse)
  from document_value[OF this] h show ?thesis by simp
qed

lemma exec_spawned:
  "errorChannel s = Some ch \<Longrightarrow>
   spawned (snd (execCompileCommand spawnSync s key info)) =
     spawned s @ [(build_command s info, compilationDirectory info),
                  (filtcmd info, compilationDirectory info)]"
  by (simp add: execCompileCommand_def Let_def case_prod_beta appendLine_def
        split: option.splits)

lemma exec_compileCommands:
  "errorChannel s = Some ch \<Longrightarrow>
   compileCommands (snd (execCompileCommand spawnSync s key info)) =
     (if build_failed (build_result spawnSync s info) then compileCommands s
      else (compileCommands s)(key \<mapsto> info\<lparr>ci_extraArgs := extraArgs s\<rparr>))"
  by (simp add: execCompileCommand_def Let_def case_prod_beta build_result_def
        appendLine_def split: option.splits)


lemma exec_keeps_channel:
  "errorChannel s = Some ch \<Longrightarrow>
   \<exists>ch'. errorChannel (snd (execCompileCommand spawnSync s key info)) = Some ch'"
  by (simp add: execCompileCommand_def Let_def case_prod_beta appendLine_def
        split: option.splits)


text \<open>
  C6, the code at a failing input. The extra arguments are \<^verbatim>\<open>-O2\<close>, the record of the
  disassembly of \<^verbatim>\<open>/p/a.c\<close> was last built without extra arguments, and the compiler is
  ended by a signal: \<^verbatim>\<open>spawnSync\<close> returns the status \<^verbatim>\<open>null\<close> and no error object. The
  build did not succeed, yet \<^verbatim>\<open>execCompileCommand\<close> returns \<^verbatim>\<open>true\<close> and stores \<^verbatim>\<open>-O2\<close>
  as the record's last extra arguments, and so does \<^verbatim>\<open>compile\<close>.
\<close>

theorem killed_build_sets_lastExtraArgs:
  "errorChannel (setExtraCompileArgs loaded0 [''-O2'']) = Some []
   \<and> compileCommands (setExtraCompileArgs loaded0 [''-O2'']) ''/out/a.c.s'' = Some asm_info0
   \<and> ci_extraArgs asm_info0 = []
   \<and> status (build_result killed (setExtraCompileArgs loaded0 [''-O2'']) asm_info0) = None
   \<and> signal (build_result killed (setExtraCompileArgs loaded0 [''-O2'']) asm_info0)
       = Some ''SIGKILL''
   \<and> spawn_error (build_result killed (setExtraCompileArgs loaded0 [''-O2'']) asm_info0)
       = None
   \<and> fst (execCompileCommand killed (setExtraCompileArgs loaded0 [''-O2''])
             ''/out/a.c.s'' asm_info0) = Inr (RBool True)
   \<and> compileCommands
         (snd (execCompileCommand killed (setExtraCompileArgs loaded0 [''-O2''])
                 ''/out/a.c.s'' asm_info0)) ''/out/a.c.s''
       = Some (asm_info0\<lparr>ci_extraArgs := [''-O2'']\<rparr>)
   \<and> fst (compile cfg0 killed (setExtraCompileArgs loaded0 [''-O2'']) asm0)
       = Inr (RBool True)
   \<and> compileCommands
         (snd (compile cfg0 killed (setExtraCompileArgs loaded0 [''-O2'']) asm0))
         ''/out/a.c.s''
       = Some (asm_info0\<lparr>ci_extraArgs := [''-O2'']\<rparr>)"
  by code_simp

text \<open>
  C7, the code at a failing input. The compiler exits with status 1, so the build of the
  disassembly of \<^verbatim>\<open>/p/a.c\<close> fails and \<^verbatim>\<open>compile\<close> returns the error text; the post-pass
  is started all the same, and its redirection creates the artifact file at the current
  time. The next request then finds the record fresh and returns \<^verbatim>\<open>true\<close> without
  starting the compiler again.
\<close>

theorem postpass_runs_after_failed_build:
  "build_failed (build_result failing_build loaded0 asm_info0)
   \<and> fst (compile cfg0 failing_build loaded0 asm0)
       = Inr (RStr ([CHR 0x0A, CHR 0x0A] @ ''error  failed with error code 1''))
   \<and> spawned (snd (compile cfg0 failing_build loaded0 asm0))
       = [(asm_command0 @ '' '', ''/p''), (filtcmd asm_info0, ''/p'')]
   \<and> lookup_path (world loaded0) ''/out/a.c.s'' = None
   \<and> lookup_path (world (snd (compile cfg0 failing_build loaded0 asm0))) ''/out/a.c.s''
       = Some 100
   \<and> fst (compile cfg0 failing_build (snd (compile cfg0 failing_build loaded0 asm0)) asm0)
       = Inr (RBool True)
   \<and> spawned
         (snd (compile cfg0 failing_build (snd (compile cfg0 failing_build loaded0 asm0))
                 asm0))
       = [(asm_command0 @ '' '', ''/p''), (filtcmd asm_info0, ''/p'')]"
  by code_simp

section \<open>Properties of the staleness check and of the reload check\<close>

lemma fileNewer_date:
  "fileNewer w source (TDate d) =
     (case lookup_path w source of None \<Rightarrow> Inl (ENOENT source) | Some m \<Rightarrow> Inr (d < m))"
  by (simp add: fileNewer_def falsy_def statSync_def split: option.splits)

lemma fileNewer_path:
  "fileNewer w source (TPath p) =
     (if p = [] then Inr True
      else case lookup_path w source of
             None \<Rightarrow> Inl (ENOENT source)
           | Some m \<Rightarrow> (case lookup_path w p of None \<Rightarrow> Inr True | Some tm \<Rightarrow> Inr (tm < m)))"
  by (simp add: fileNewer_def falsy_def statSync_def existsSync_def split: option.splits)

lemma lookup_path_empty: "lookup_path w [] = None"
  by (simp add: lookup_path_def)

lemma update_not_newer:
  assumes "initTime s = Some t" "lookup_path (world s) (getCompileCommandsPath cfg) = Some m"
    "m \<le> t"
  shows "update cfg s = (Inr (), s)"
  using assms by (simp add: update_def fileNewer_date)

lemma update_missing:
  assumes "initTime s = Some t" "lookup_path (world s) (getCompileCommandsPath cfg) = None"
  shows "update cfg s = (Inl (ENOENT (getCompileCommandsPath cfg)), s)"
  using assms by (simp add: update_def fileNewer_date)


lemma needCompilation_cases:
  "needCompilation cfg s info =
     (if extraArgs s \<noteq> ci_extraArgs info then Inr True
      else if path (ci_uri info) = [] then Inr True
      else case lookup_path (world s) (path (srcUri info)) of
             None \<Rightarrow> Inl (ENOENT (path (srcUri info)))
           | Some sm \<Rightarrow>
               (case lookup_path (world s) (path (ci_uri info)) of
                  None \<Rightarrow> Inr True
                | Some am \<Rightarrow>
                    if am < sm then Inr True
                    else (case lookup_path (world s) (getCompileCommandsPath cfg) of
                            None \<Rightarrow> Inl (ENOENT (getCompileCommandsPath cfg))
                          | Some dm \<Rightarrow> Inr (am < dm))))"
  by (simp add: needCompilation_def extraArgsChanged_def arrayEquals_def fileNewer_path
        split: option.splits)

text \<open>
  C1, as amended. For every record whose source file exists and every current extra-args
  list, \<^verbatim>\<open>needCompilation\<close> returns true if and only if the current extra arguments differ
  from the record's last ones (as lists, in order), or the artifact is absent or older than
  the source, or the compilation database exists and is newer than the artifact. It returns
  false exactly when the arguments are equal and the artifact exists and is at least as new
  as the source and as the database, which then exists.
\<close>

theorem needCompilation_iff:
  assumes "lookup_path (world s) (path (srcUri info)) = Some srcMtime"
  shows "(needCompilation cfg s info = Inr True \<longleftrightarrow>
            extraArgs s \<noteq> ci_extraArgs info
          \<or> (case lookup_path (world s) (path (ci_uri info)) of
                None \<Rightarrow> True | Some artMtime \<Rightarrow> artMtime < srcMtime)
          \<or> (\<exists>dbMtime artMtime.
                lookup_path (world s) (getCompileCommandsPath cfg) = Some dbMtime
              \<and> lookup_path (world s) (path (ci_uri info)) = Some artMtime
              \<and> artMtime < dbMtime))
       \<and> (needCompilation cfg s info = Inr False \<longleftrightarrow>
            extraArgs s = ci_extraArgs info
          \<and> (\<exists>dbMtime artMtime.
                lookup_path (world s) (getCompileCommandsPath cfg) = Some dbMtime
              \<and> lookup_path (world s) (path (ci_uri info)) = Some artMtime
              \<and> srcMtime \<le> artMtime \<and> dbMtime \<le> artMtime))"
  using assms
  by (auto simp: needCompilation_cases lookup_path_empty split: option.splits)


lemma compile_update_throws:
  "update cfg s = (Inl e, s1) \<Longrightarrow> compile cfg spawnSync s u = (Inl e, s1)"
  by (simp add: compile_def)

lemma compile_after_update:
  "update cfg s = (Inr (), s1) \<Longrightarrow>
   compile cfg spawnSync s u =
     (case getCompileInfo s1 u of
        None \<Rightarrow> (Inr (RBool False), s1)
      | Some info \<Rightarrow>
          (case needCompilation cfg s1 info of
             Inl e \<Rightarrow> (Inl e, s1)
           | Inr stale \<Rightarrow>
               if stale then execCompileCommand spawnSync s1 (path u) info
               else (Inr (RBool True), s1)))"
  by (simp add: compile_def split: option.splits sum.splits bool.splits)

text \<open>
  C10, as amended. In every state after a successful load, if the compilation database is
  gone from disk, \<^verbatim>\<open>compile\<close> and the four lookups throw the error of the stat call and
  leave the state as it was. After the reload check, \<^verbatim>\<open>compile\<close> on a record whose source
  file is gone throws the error of the stat call when the current extra arguments equal the
  record's last ones; when they differ, the source is not examined and the record is handed
  to \<^verbatim>\<open>execCompileCommand\<close>.
  Only the target of a freshness comparison is guarded: an absent target gives true.
\<close>

theorem unguarded_stat_throws:
  "(initTime s = Some t \<and> lookup_path (world s) (getCompileCommandsPath cfg) = None \<longrightarrow>
      compile cfg spawnSync s u = (Inl (ENOENT (getCompileCommandsPath cfg)), s)
    \<and> getSrcUri cfg s u = (Inl (ENOENT (getCompileCommandsPath cfg)), s)
    \<and> getAsmUri cfg s u = (Inl (ENOENT (getCompileCommandsPath cfg)), s)
    \<and> getLLVMUri cfg s u = (Inl (ENOENT (getCompileCommandsPath cfg)), s)
    \<and> getPreprocessUri cfg s u = (Inl (ENOENT (getCompileCommandsPath cfg)), s))
   \<and> (update cfg s = (Inr (), s1) \<and> getCompileInfo s1 u = Some info
      \<and> extraArgs s1 = ci_extraArgs info \<and> path (ci_uri info) \<noteq> []
      \<and> lookup_path (world s1) (path (srcUri info)) = None \<longrightarrow>
      compile cfg spawnSync s u = (Inl (ENOENT (path (srcUri info))), s1))
   \<and> (update cfg s = (Inr (), s1) \<and> getCompileInfo s1 u = Some info
      \<and> extraArgs s1 \<noteq> ci_extraArgs info \<longrightarrow>
      compile cfg spawnSync s u = execCompileCommand spawnSync s1 (path u) info)
   \<and> (lookup_path w source = Some m \<and> lookup_path w tgt = None \<longrightarrow>
      fileNewer w source (TPath tgt) = Inr True)"
proof -
  have db: "compile cfg spawnSync s u = (Inl (ENOENT (getCompileCommandsPath cfg)), s)
    \<and> getSrcUri cfg s u = (Inl (ENOENT (getCompileCommandsPath cfg)), s)
    \<and> getAsmUri cfg s u = (Inl (ENOENT (getCompileCommandsPath cfg)), s)
    \<and> getLLVMUri cfg s u = (Inl (ENOENT (getCompileCommandsPath cfg)), s)
    \<and> getPreprocessUri cfg s u = (Inl (ENOENT (getCompileCommandsPath cfg)), s)"
    if "initTime s = Some t" "lookup_path (world s) (getCompileCommandsPath cfg) = None"
    using update_missing[OF that]
    by (simp add: compile_update_throws getSrcUri_def getAsmUri_def getLLVMUri_def
          getPreprocessUri_def)
  have src: "compile cfg spawnSync s u = (Inl (ENOENT (path (srcUri info))), s1)"
    if "update cfg s = (Inr (), s1)" "getCompileInfo s1 u = Some info"
      "extraArgs s1 = ci_extraArgs info" "path (ci_uri info) \<noteq> []"
      "lookup_path (world s1) (path (srcUri info)) = None"
    using that by (simp add: compile_after_update needCompilation_cases)
  have changed: "compile cfg spawnSync s u = execCompileCommand spawnSync s1 (path u) info"
    if "update cfg s = (Inr (), s1)" "getCompileInfo s1 u = Some info"
      "extraArgs s1 \<noteq> ci_extraArgs info"
    using that by (simp add: compile_after_update needCompilation_cases)
  have guarded: "fileNewer w source (TPath tgt) = Inr True"
    if "lookup_path w source = Some m" "lookup_path w tgt = None"
    using that by (simp add: fileNewer_path)
  from db src changed guarded show ?thesis by blast
qed




text \<open>
  C1, witness: with the disassembly written after the source and the database nothing needs
  building; with the disassembly absent it does.
\<close>

theorem needCompilation_witness:
  "lookup_path (world built0) (path (srcUri asm_info0)) = Some 20
   \<and> needCompilation cfg0 built0 asm_info0 = Inr False
   \<and> lookup_path (world loaded0) (path (srcUri asm_info0)) = Some 20
   \<and> needCompilation cfg0 loaded0 asm_info0 = Inr True"
proof -
  have src: "lookup_path (world built0) (path (srcUri asm_info0)) = Some 20"
    "lookup_path (world loaded0) (path (srcUri asm_info0)) = Some 20"
    by code_simp+
  have facts: "extraArgs built0 = ci_extraArgs asm_info0"
    "lookup_path (world built0) (getCompileCommandsPath cfg0) = Some 10"
    "lookup_path (world built0) (path (ci_uri asm_info0)) = Some 30"
    "lookup_path (world loaded0) (path (ci_uri asm_info0)) = None"
    by code_simp+
  from needCompilation_iff[OF src(1), of cfg0] needCompilation_iff[OF src(2), of cfg0]
    src facts
  show ?thesis by simp
qed

text \<open>
  C1, counterexample to the claim as worded: the source was deleted, the arguments are
  unchanged and the database (time 10) is newer than the disassembly (time 5), yet
  \<^verbatim>\<open>needCompilation\<close> does not return true: the unguarded stat of the source throws.
\<close>

theorem needCompilation_counterexample:
  "getCompileInfo source_deleted asm0 = Some asm_info0
   \<and> extraArgs source_deleted = ci_extraArgs asm_info0
   \<and> lookup_path (world source_deleted) (getCompileCommandsPath cfg0) = Some 10
   \<and> lookup_path (world source_deleted) (path (ci_uri asm_info0)) = Some 5
   \<and> needCompilation cfg0 source_deleted asm_info0 = Inl (ENOENT ''/p/a.c'')"
  by code_simp

text \<open>
  C10, witness: the database deleted, the source deleted, the source deleted with changed
  extra arguments, and the disassembly absent.
\<close>

theorem unguarded_stat_witness:
  "compile cfg0 failing database_deleted asm0
     = (Inl (ENOENT ''/p/compile_commands.json''), database_deleted)
   \<and> getAsmUri cfg0 database_deleted (Uri_file ''/p/a.c'')
     = (Inl (ENOENT ''/p/compile_commands.json''), database_deleted)
   \<and> compile cfg0 failing source_deleted asm0 = (Inl (ENOENT ''/p/a.c''), source_deleted)
   \<and> fst (compile cfg0 failing (setExtraCompileArgs source_deleted [''-O2'']) asm0)
     = Inr (RStr ([CHR 0x0A, CHR 0x0A] @ ''error  failed with error code 1''))
   \<and> fileNewer (world loaded0) ''/p/a.c'' (TPath ''/out/a.c.s'') = Inr True"
proof -
  let ?changed = "setExtraCompileArgs source_deleted [''-O2'']"
  have db: "initTime database_deleted = Some 100"
    "lookup_path (world database_deleted) (getCompileCommandsPath cfg0) = None"
    "getCompileCommandsPath cfg0 = ''/p/compile_commands.json''"
    by code_simp+
  have src: "initTime source_deleted = Some 100"
    "lookup_path (world source_deleted) (getCompileCommandsPath cfg0) = Some 10"
    "getCompileInfo source_deleted asm0 = Some asm_info0"
    "extraArgs source_deleted = ci_extraArgs asm_info0"
    "path (ci_uri asm_info0) \<noteq> []"
    "lookup_path (world source_deleted) (path (srcUri asm_info0)) = None"
    "path (srcUri asm_info0) = ''/p/a.c''"
    by code_simp+
  have upd: "update cfg0 source_deleted = (Inr (), source_deleted)"
    using update_not_newer[OF src(1,2)] by simp
  have changed: "initTime ?changed = Some 100"
    "lookup_path (world ?changed) (getCompileCommandsPath cfg0) = Some 10"
    "getCompileInfo ?changed asm0 = Some asm_info0"
    "extraArgs ?changed \<noteq> ci_extraArgs asm_info0"
    "fst (execCompileCommand failing ?changed (path asm0) asm_info0)
       = Inr (RStr ([CHR 0x0A, CHR 0x0A] @ ''error  failed with error code 1''))"
    by code_simp+
  have upd': "update cfg0 ?changed = (Inr (), ?changed)"
    using update_not_newer[OF changed(1,2)] by simp
  have guard: "lookup_path (world loaded0) ''/p/a.c'' = Some 20"
    "lookup_path (world loaded0) ''/out/a.c.s'' = None"
    by code_simp+
  note thm1 = unguarded_stat_throws[of database_deleted 100 cfg0 failing asm0
      source_deleted asm_info0 "world loaded0" "''/p/a.c''" 20 "''/out/a.c.s''"]
  note thm2 = unguarded_stat_throws[of database_deleted 100 cfg0 _ "Uri_file ''/p/a.c''"]
  note thm3 = unguarded_stat_throws[of source_deleted _ cfg0 failing asm0
      source_deleted asm_info0]
  note thm4 = unguarded_stat_throws[of ?changed _ cfg0 failing asm0 ?changed asm_info0]
  from thm1 thm2 thm3 thm4 db src upd changed upd' guard show ?thesis
    by simp
qed

text \<open>
  C10, counterexample to the claim as worded: the source of the record is gone, the extra
  arguments were changed to \<^verbatim>\<open>-O2\<close>, and \<^verbatim>\<open>compile\<close> returns the error text of the failed
  build instead of throwing.
\<close>

theorem unguarded_stat_counterexample:
  "getCompileInfo (setExtraCompileArgs source_deleted [''-O2'']) asm0 = Some asm_info0
   \<and> lookup_path (world (setExtraCompileArgs source_deleted [''-O2'']))
        (path (srcUri asm_info0)) = None
   \<and> fst (compile cfg0 failing (setExtraCompileArgs source_deleted [''-O2'']) asm0)
       = Inr (RStr ([CHR 0x0A, CHR 0x0A] @ ''error  failed with error code 1''))"
  by code_simp



section \<open>Properties of loading and reloading\<close>


lemma createOutputDirectory_exists:
  "existsSync w (outDir cfg) \<Longrightarrow> createOutputDirectory cfg w = Inr w"
  by (simp add: createOutputDirectory_def)
















section \<open>Properties of paths\<close>

text \<open>
  A resolved path never begins with two slashes, hence \<^verbatim>\<open>Uri.file\<close> keeps it as the path
  of the URI of a processed entry.
\<close>

lemma split_slash_pieces:
  "CHR ''/'' \<notin> set acc \<Longrightarrow> \<forall>seg \<in> set (split_slash acc p). CHR ''/'' \<notin> set seg"
  by (induction acc p rule: split_slash.induct) simp_all

lemma segments_pieces:
  "seg \<in> set (segments p) \<Longrightarrow> seg \<noteq> [] \<and> CHR ''/'' \<notin> set seg"
  using split_slash_pieces[of "[]" p] by (auto simp: segments_def)

lemma normalize_segments_subset:
  "set (normalize_segments stack segs) \<subseteq> set stack \<union> set segs"
proof (induction segs arbitrary: stack)
  case Nil
  then show ?case by simp
next
  case (Cons seg segs)
  have "set (tl stack) \<subseteq> set stack"
    by (cases stack) auto
  with Cons.IH[of stack] Cons.IH[of "tl stack"] Cons.IH[of "seg # stack"]
  show ?case by auto
qed

lemma Path_resolve_single_slash: "take 2 (Path_resolve wd ps) \<noteq> ''//''"
proof (cases "resolved_segments wd ps")
  case Nil
  then show ?thesis by (simp add: Path_resolve_def numeral_2_eq_2)
next
  case (Cons seg segs)
  then have "seg \<in> set (resolved_segments wd ps)" by simp
  then have "seg \<noteq> [] \<and> CHR ''/'' \<notin> set seg"
    unfolding resolved_segments_def
    using normalize_segments_subset segments_pieces by fastforce
  then obtain c r where seg: "seg = c # r" "c \<noteq> CHR ''/''"
    by (cases seg) auto
  have "join ''/'' (seg # segs) = c # r @ concat (map (\<lambda>a. ''/'' @ a) segs)"
    using seg(1) by (simp add: join_cons_concat)
  with Cons seg(2) show ?thesis
    by (simp add: Path_resolve_def numeral_2_eq_2)
qed

lemma process_uri:
  "cc_uri (process wd c)
     = \<lparr>scheme = ''file'', path = Path_resolve wd [directory c, cc_file c]\<rparr>"
  by (simp add: process_def Let_def Uri_file_def reference_resolution_def Path_resolve_def)

section \<open>The end-to-end example\<close>

lemma entry0_tokens:
  "filter (\<lambda>arg. arg \<noteq> []) (match_all ''/usr/bin/cc -O2 -g -c a.c -o a.o'')
     = [''/usr/bin/cc'', ''-O2'', ''-g'', ''-c'', ''a.c'', ''-o'', ''a.o'']"
  "sanitizeArgs [''-O2'', ''-g'', ''-c'', ''a.c'', ''-o'', ''a.o''] = [''-O2'', ''a.c'']"
  "CHR ''/'' # join ''/'' (normalize_segments [] (segments ''/p/a.c/'')) = ''/p/a.c''"
  "normalize_segments [] (segments ''/p/'') = [''p'']"
  "normalize_segments [] (segments ''/p/a.c/'') = [''p'', ''a.c'']"
  "lastIndexOf CHR ''.'' ''/p/a.c'' = 4"
  "valid_scheme ''disassembly''" "valid_scheme ''llvm''" "valid_scheme ''file''"
  by code_simp+

lemma process_entry0:
  "process wd entry0 =
     \<lparr>cc_file = ''a.c'', raw_command = ''/usr/bin/cc -O2 -g -c a.c -o a.o'',
      raw_arguments = [], directory = ''/p'',
      cc_uri = \<lparr>scheme = ''file'', path = ''/p/a.c''\<rparr>,
      cc_command = ''/usr/bin/cc'', cc_args = [''-O2'', ''a.c'']\<rparr>"
  by (simp add: process_def entry0_def entry0_tokens Path_resolve_def resolved_segments_def
        is_absolute_def Uri_file_def reference_resolution_def Let_def)

lemma relative_entry0: "Path_relative wd ''/p'' ''/p/a.c'' = ''a.c''"
  by (simp add: Path_relative_def resolved_segments_def is_absolute_def entry0_tokens)

lemma absolute_dir:
  assumes "is_absolute d" "take 2 d \<noteq> ''//''" "\<not> is_absolute x"
  shows "take 2 (d @ x) \<noteq> ''//''" "reference_resolution sch (d @ x) = d @ x"
proof -
  from assms(1) obtain r where d: "d = CHR ''/'' # r"
    by (auto simp: is_absolute_def split: list.splits)
  show "reference_resolution sch (d @ x) = d @ x"
    using d by (simp add: reference_resolution_def)
  show "take 2 (d @ x) \<noteq> ''//''"
  proof (cases r)
    case Nil
    with d assms(3) show ?thesis
      by (cases x) (simp_all add: is_absolute_def numeral_2_eq_2)
  next
    case (Cons c r')
    with d assms(2) show ?thesis
      by (simp add: numeral_2_eq_2)
  qed
qed

lemma artifact_uris_entry0:
  assumes "rootPath cfg = Some ''/p''" "is_absolute (outDir cfg)"
    "take 2 (outDir cfg) \<noteq> ''//''"
  shows "artifact_uri cfg \<lparr>scheme = ''file'', path = ''/p/a.c''\<rparr> ''disassembly''
           = Inr \<lparr>scheme = ''disassembly'', path = outDir cfg @ ''a.c.s''\<rparr>"
    "artifact_uri cfg \<lparr>scheme = ''file'', path = ''/p/a.c''\<rparr> ''llvm''
           = Inr \<lparr>scheme = ''llvm'', path = outDir cfg @ ''a.c.ll''\<rparr>"
    "artifact_uri cfg \<lparr>scheme = ''file'', path = ''/p/a.c''\<rparr> ''file''
           = Inr \<lparr>scheme = ''file'', path = outDir cfg @ ''a.c.E.c''\<rparr>"
proof -
  have rel: "\<not> is_absolute ''a.c.s''" "\<not> is_absolute ''a.c.ll''" "\<not> is_absolute ''a.c.E.c''"
    by (simp_all add: is_absolute_def)
  note abs = absolute_dir[OF assms(2,3) rel(1)] absolute_dir[OF assms(2,3) rel(2)]
    absolute_dir[OF assms(2,3) rel(3)]
  show "artifact_uri cfg \<lparr>scheme = ''file'', path = ''/p/a.c''\<rparr> ''disassembly''
           = Inr \<lparr>scheme = ''disassembly'', path = outDir cfg @ ''a.c.s''\<rparr>"
    using assms(1) abs(1,2)
    by (simp add: artifact_uri_def artifact_ext_def relative_entry0 replace_slashes_def
          Uri_with_def new_Uri_def entry0_tokens Let_def)
  show "artifact_uri cfg \<lparr>scheme = ''file'', path = ''/p/a.c''\<rparr> ''llvm''
           = Inr \<lparr>scheme = ''llvm'', path = outDir cfg @ ''a.c.ll''\<rparr>"
    using assms(1) abs(3,4)
    by (simp add: artifact_uri_def artifact_ext_def relative_entry0 replace_slashes_def
          Uri_with_def new_Uri_def entry0_tokens Let_def)
  show "artifact_uri cfg \<lparr>scheme = ''file'', path = ''/p/a.c''\<rparr> ''file''
           = Inr \<lparr>scheme = ''file'', path = outDir cfg @ ''a.c.E.c''\<rparr>"
    using assms(1) abs(5,6)
    by (simp add: artifact_uri_def artifact_ext_def relative_entry0 replace_slashes_def
          Uri_with_def new_Uri_def entry0_tokens slice_from_def Let_def)
qed

text \<open>
  C4, as amended. The workspace is rooted at \<^verbatim>\<open>/p\<close>, the output directory is absolute and
  exists, the database holds the one entry for \<^verbatim>\<open>a.c\<close> in \<^verbatim>\<open>/p\<close> with the command
  \<^verbatim>\<open>/usr/bin/cc -O2 -g -c a.c -o a.o\<close> and is not dated in the future, the source exists
  and its disassembly does not yet. Then loading the database with an error channel
  succeeds; the lookup for the source \<^verbatim>\<open>/p/a.c\<close> returns the disassembly
  \<^verbatim>\<open><outDir>a.c.s\<close>; its record holds the command
  \<^verbatim>\<open>/usr/bin/cc -g1 -S -masm=intel -fno-unwind-tables -fno-asynchronous-unwind-tables
  -fno-dwarf2-cfi-asm -O2 a.c -o "<outDir>a.c.s"\<close> and the compilation directory \<^verbatim>\<open>/p\<close>;
  and requesting the disassembly starts exactly that command, followed by a space and the
  extra arguments joined by spaces, and then the post-pass, both in \<^verbatim>\<open>/p\<close>. The source
  file stays among the arguments, and only the slashes of the relative source path are
  replaced in the artifact name.
\<close>

theorem end_to_end_disassembly:
  assumes root: "rootPath cfg = Some ''/p''"
    and od: "is_absolute (outDir cfg)" "take 2 (outDir cfg) \<noteq> ''//''"
      "existsSync (world s) (outDir cfg)"
    and db: "lookup_path (world s) (getCompileCommandsPath cfg) = Some m"
      "m \<le> clock (world s)" "database (world s) = Some [entry0]"
    and src: "lookup_path (world s) ''/p/a.c'' = Some sm"
    and art: "lookup_path (world s) (outDir cfg @ ''a.c.s'') = None"
  shows "fst (init cfg (Some ch) s) = Inr True
   \<and> getAsmUri cfg (snd (init cfg (Some ch) s)) (Uri_file ''/p/a.c'')
       = (Inr (Some \<lparr>scheme = ''disassembly'', path = outDir cfg @ ''a.c.s''\<rparr>),
          snd (init cfg (Some ch) s))
   \<and> getCompileInfo (snd (init cfg (Some ch) s))
         \<lparr>scheme = ''disassembly'', path = outDir cfg @ ''a.c.s''\<rparr>
       = Some \<lparr>ci_uri = \<lparr>scheme = ''disassembly'', path = outDir cfg @ ''a.c.s''\<rparr>,
               srcUri = \<lparr>scheme = ''file'', path = ''/p/a.c''\<rparr>,
               ci_command =
                 ''/usr/bin/cc -g1 -S -masm=intel -fno-unwind-tables ''
                 @ ''-fno-asynchronous-unwind-tables -fno-dwarf2-cfi-asm -O2 a.c -o ''
                 @ [CHR 0x22] @ outDir cfg @ ''a.c.s'' @ [CHR 0x22],
               compilationDirectory = ''/p'', ci_extraArgs = []\<rparr>
   \<and> spawned (snd (compile cfg spawnSync (snd (init cfg (Some ch) s))
                      \<lparr>scheme = ''disassembly'', path = outDir cfg @ ''a.c.s''\<rparr>))
       = spawned s
         @ [(''/usr/bin/cc -g1 -S -masm=intel -fno-unwind-tables ''
             @ ''-fno-asynchronous-unwind-tables -fno-dwarf2-cfi-asm -O2 a.c -o ''
             @ [CHR 0x22] @ outDir cfg @ ''a.c.s'' @ [CHR 0x22]
             @ '' '' @ join '' '' (extraArgs s), ''/p''),
            (filtcmd \<lparr>ci_uri = \<lparr>scheme = ''disassembly'', path = outDir cfg @ ''a.c.s''\<rparr>,
                      srcUri = \<lparr>scheme = ''file'', path = ''/p/a.c''\<rparr>,
                      ci_command =
                        ''/usr/bin/cc -g1 -S -masm=intel -fno-unwind-tables ''
                        @ ''-fno-asynchronous-unwind-tables -fno-dwarf2-cfi-asm -O2 a.c -o ''
                        @ [CHR 0x22] @ outDir cfg @ ''a.c.s'' @ [CHR 0x22],
                      compilationDirectory = ''/p'', ci_extraArgs = []\<rparr>, ''/p'')]"
proof -
  define s1 where "s1 = snd (init cfg (Some ch) s)"
  define asmU where "asmU = \<lparr>scheme = ''disassembly'', path = outDir cfg @ ''a.c.s''\<rparr>"
  define info where "info =
     \<lparr>ci_uri = asmU, srcUri = \<lparr>scheme = ''file'', path = ''/p/a.c''\<rparr>,
      ci_command =
        ''/usr/bin/cc -g1 -S -masm=intel -fno-unwind-tables ''
        @ ''-fno-asynchronous-unwind-tables -fno-dwarf2-cfi-asm -O2 a.c -o ''
        @ [CHR 0x22] @ outDir cfg @ ''a.c.s'' @ [CHR 0x22],
      compilationDirectory = ''/p'', ci_extraArgs = []\<rparr>"
  have dbx: "existsSync (world s) (getCompileCommandsPath cfg)"
    using db(1) by (simp add: existsSync_def)
  note defs = init_def parseCompileCommands_def processCompileCommand_def process_entry0
    encodeAsmUri_def encodeLLVMUri_def encodePreprocessUri_def getUriForScheme_def
    createOutputDirectory_exists artifact_uris_entry0[OF root od(1,2)] new_CompileInfo_def
    getDisassembleCommand_def getCommand_def Let_def
  have loaded: "fst (init cfg (Some ch) s) = Inr True"
    using dbx db(3) od(3) by (simp add: defs)
  have fields: "asmUriMap s1 ''/p/a.c'' = Some asmU"
    "compileCommands s1 (outDir cfg @ ''a.c.s'') = Some info"
    "initTime s1 = Some (clock (world s))" "world s1 = world s"
    "extraArgs s1 = extraArgs s" "errorChannel s1 = Some ch" "spawned s1 = spawned s"
    unfolding s1_def asmU_def info_def using dbx db(3) od(3) by (simp_all add: defs)
  have upd: "update cfg s1 = (Inr (), s1)"
    using update_not_newer[OF fields(3), of cfg m] db(1,2) fields(4) by simp
  have lookup: "getAsmUri cfg s1 (Uri_file ''/p/a.c'') = (Inr (Some asmU), s1)"
    using upd fields(1) by (simp add: getAsmUri_def Uri_file_def reference_resolution_def)
  have rec: "getCompileInfo s1 asmU = Some info"
    using fields(2) by (simp add: getCompileInfo_def asmU_def)
  have stale: "needCompilation cfg s1 info = Inr True"
    using src art fields(4) by (simp add: needCompilation_cases info_def asmU_def)
  have "compile cfg spawnSync s1 asmU = execCompileCommand spawnSync s1 (path asmU) info"
    using upd rec stale by (simp add: compile_after_update)
  then have run: "spawned (snd (compile cfg spawnSync s1 asmU)) =
      spawned s @ [(ci_command info @ '' '' @ join '' '' (extraArgs s), ''/p''),
                   (filtcmd info, ''/p'')]"
    using exec_spawned[OF fields(6), of spawnSync "path asmU" info] fields(5,7)
    by (simp add: build_command_def getExtraCompileArgs_def info_def)
  from loaded lookup rec run show ?thesis
    unfolding s1_def asmU_def info_def by simp
qed

text \<open>
  C4, witness: the example's workspace with the output directory \<^verbatim>\<open>/out/\<close>, no extra
  arguments and an empty error channel.
\<close>

theorem end_to_end_witness:
  "fst (init cfg0 (Some []) state0) = Inr True
   \<and> getAsmUri cfg0 loaded0 (Uri_file ''/p/a.c'') = (Inr (Some asm0), loaded0)
   \<and> getCompileInfo loaded0 asm0 = Some asm_info0
   \<and> spawned (snd (compile cfg0 failing loaded0 asm0))
       = [(asm_command0 @ '' '', ''/p''), (filtcmd asm_info0, ''/p'')]"
proof -
  have h: "rootPath cfg0 = Some ''/p''" "is_absolute (outDir cfg0)"
    "take 2 (outDir cfg0) \<noteq> ''//''" "existsSync (world state0) (outDir cfg0)"
    "lookup_path (world state0) (getCompileCommandsPath cfg0) = Some 10"
    "10 \<le> clock (world state0)" "database (world state0) = Some [entry0]"
    "lookup_path (world state0) ''/p/a.c'' = Some 20"
    "lookup_path (world state0) (outDir cfg0 @ ''a.c.s'') = None"
    by code_simp+
  have v: "outDir cfg0 = ''/out/''" "spawned state0 = []" "extraArgs state0 = []"
    by code_simp+
  from end_to_end_disassembly[OF h, of "[]" failing] v show ?thesis
    by (simp add: loaded0_def asm0_def asm_info0_def asm_command0_def)
qed

text \<open>
  C4, counterexample to the claim as worded: after loading the example's database, the
  disassembly of \<^verbatim>\<open>/p/a.c\<close> is \<^verbatim>\<open>/out/a.c.s\<close>, its command differs from the one the
  specification gives, and there is no record for \<^verbatim>\<open>/out/a@c.s\<close>.
\<close>

theorem end_to_end_counterexample:
  "fst (getAsmUri cfg0 loaded0 (Uri_file ''/p/a.c'')) = Inr (Some asm0)
   \<and> map_option ci_command (getCompileInfo loaded0 asm0) = Some asm_command0
   \<and> asm_command0 \<noteq> spec_asm_command0
   \<and> getCompileInfo loaded0 \<lparr>scheme = ''disassembly'', path = ''/out/a@c.s''\<rparr> = None
   \<and> spawned (snd (compile cfg0 failing loaded0 asm0))
       = [(asm_command0 @ '' '', ''/p''), (filtcmd asm_info0, ''/p'')]"
  by code_simp

end
